theory Spec2Isabelle
  imports Complex_Main "HOL-Library.Monad_Syntax" "HOL-Library.Sublist"
begin

section \<open>JavaScript values as the chat route receives them\<close>

text \<open>
  The route handler of \<^verbatim>\<open>api/chat\<close> works on values that come out of a JSON body
  parser (\<^verbatim>\<open>req.body\<close>) and out of the model SDK (the response, or the rejection reason).
  Such values are plain data: no functions, no getters, no cycles.

  \<^item> \<open>JNum n\<close> is the number with the integer value \<open>n\<close>; the model's numbers are the
    integers that JavaScript prints in plain decimal notation (magnitude below
    \<open>10^21\<close>). Fractions, \<open>NaN\<close> and the infinities are not values of the model.
  \<^item> \<open>JStr s\<close> is a string; one \<open>char\<close> stands for one code unit.
  \<^item> \<open>JObj ps\<close> is a plain object: \<open>ps\<close> lists its own properties in the order
    \<^verbatim>\<open>Object.entries\<close> reports them. A key is looked up with \<open>map_of\<close>.
\<close>

datatype jsval =
    JUndefined
  | JNull
  | JBool bool
  | JNum int
  | JStr string
  | JArr "jsval list"
  | JObj "(string \<times> jsval) list"

text \<open>\<^verbatim>\<open>typeof v\<close>.\<close>

fun typeofJS :: "jsval \<Rightarrow> string" where
  "typeofJS JUndefined = ''undefined''"
| "typeofJS JNull = ''object''"
| "typeofJS (JBool b) = ''boolean''"
| "typeofJS (JNum n) = ''number''"
| "typeofJS (JStr s) = ''string''"
| "typeofJS (JArr xs) = ''object''"
| "typeofJS (JObj ps) = ''object''"

text \<open>
  ToBoolean, the test behind \<^verbatim>\<open>if (v)\<close>, \<^verbatim>\<open>!v\<close>, \<^verbatim>\<open>a && b\<close>, \<^verbatim>\<open>a || b\<close> and
  \<^verbatim>\<open>c ? x : y\<close>: \<^verbatim>\<open>undefined\<close>, \<^verbatim>\<open>null\<close>, \<^verbatim>\<open>false\<close>, \<^verbatim>\<open>0\<close> and \<^verbatim>\<open>""\<close> are falsy,
  every object and array is truthy.
\<close>

fun truthy :: "jsval \<Rightarrow> bool" where
  "truthy JUndefined = False"
| "truthy JNull = False"
| "truthy (JBool b) = b"
| "truthy (JNum n) = (n \<noteq> 0)"
| "truthy (JStr s) = (s \<noteq> [])"
| "truthy (JArr xs) = True"
| "truthy (JObj ps) = True"

subsection \<open>Decimal digits\<close>

definition digitChar :: "nat \<Rightarrow> char" where
  "digitChar d =
     (if d = 0 then CHR ''0'' else if d = 1 then CHR ''1'' else if d = 2 then CHR ''2''
      else if d = 3 then CHR ''3'' else if d = 4 then CHR ''4'' else if d = 5 then CHR ''5''
      else if d = 6 then CHR ''6'' else if d = 7 then CHR ''7'' else if d = 8 then CHR ''8''
      else CHR ''9'')"

fun natToString :: "nat \<Rightarrow> string" where
  "natToString n =
     (if n < 10 then [digitChar n] else natToString (n div 10) @ [digitChar (n mod 10)])"

text \<open>Number::toString on an integer value: \<^verbatim>\<open>String(-12)\<close> is \<^verbatim>\<open>"-12"\<close>.\<close>

declare natToString.simps [simp del]

definition numToString :: "int \<Rightarrow> string" where
  "numToString n = (if n < 0 then CHR ''-'' # natToString (nat (- n)) else natToString (nat n))"

subsection \<open>Joining\<close>

text \<open>\<^verbatim>\<open>parts.join(sep)\<close> on an array of strings.\<close>

fun joinWith :: "string \<Rightarrow> string list \<Rightarrow> string" where
  "joinWith sep [] = []"
| "joinWith sep [x] = x"
| "joinWith sep (x # y # ys) = x @ sep @ joinWith sep (y # ys)"

subsection \<open>Exceptions\<close>

text \<open>
  Inside the handler's \<^verbatim>\<open>try\<close> block the runtime itself throws one kind of exception,
  a \<^verbatim>\<open>TypeError\<close> (reading a property of \<^verbatim>\<open>undefined\<close> or \<^verbatim>\<open>null\<close>, calling
  something that is not a function, converting an object that cannot be converted).
  An operation that can throw returns an \<open>option\<close>: \<open>None\<close> is "a TypeError is thrown".
\<close>

text \<open>
  \<^verbatim>\<open>v.key\<close>, for the property names this program reads (\<^verbatim>\<open>message\<close>, \<^verbatim>\<open>userData\<close>,
  \<^verbatim>\<open>location\<close>, \<^verbatim>\<open>medications\<close>, \<^verbatim>\<open>length\<close>, \<^verbatim>\<open>itemLocations\<close>, \<^verbatim>\<open>waterIntake\<close>,
  \<^verbatim>\<open>waterGoal\<close>, \<^verbatim>\<open>emergencyContacts\<close>, \<^verbatim>\<open>name\<close>, \<^verbatim>\<open>time\<close>, \<^verbatim>\<open>taken\<close>, \<^verbatim>\<open>phone\<close>,
  \<^verbatim>\<open>content\<close>, \<^verbatim>\<open>text\<close>, \<^verbatim>\<open>status\<close>): none of them is inherited from a built-in
  prototype, so a plain object answers with its own property or \<^verbatim>\<open>undefined\<close>, an
  array and a string know \<^verbatim>\<open>length\<close> only, and a number or boolean knows none.
\<close>

fun getProp :: "jsval \<Rightarrow> string \<Rightarrow> jsval option" where
  "getProp JUndefined k = None"
| "getProp JNull k = None"
| "getProp (JBool b) k = Some JUndefined"
| "getProp (JNum n) k = Some JUndefined"
| "getProp (JStr s) k = Some (if k = ''length'' then JNum (int (length s)) else JUndefined)"
| "getProp (JArr xs) k = Some (if k = ''length'' then JNum (int (length xs)) else JUndefined)"
| "getProp (JObj ps) k = Some (case map_of ps k of None \<Rightarrow> JUndefined | Some v \<Rightarrow> v)"

text \<open>\<^verbatim>\<open>v[0]\<close>: the first element of an array, the first character of a string, the own
  property \<^verbatim>\<open>"0"\<close> of a plain object.\<close>

fun getFirst :: "jsval \<Rightarrow> jsval option" where
  "getFirst JUndefined = None"
| "getFirst JNull = None"
| "getFirst (JBool b) = Some JUndefined"
| "getFirst (JNum n) = Some JUndefined"
| "getFirst (JStr s) = Some (case s of [] \<Rightarrow> JUndefined | c # cs \<Rightarrow> JStr [c])"
| "getFirst (JArr xs) = Some (case xs of [] \<Rightarrow> JUndefined | x # ys \<Rightarrow> x)"
| "getFirst (JObj ps) = Some (case map_of ps ''0'' of None \<Rightarrow> JUndefined | Some v \<Rightarrow> v)"

text \<open>
  ToString, as a template literal \<^verbatim>\<open>`${v}`\<close> applies it. A plain object prints as
  \<^verbatim>\<open>[object Object]\<close> through \<^verbatim>\<open>Object.prototype.toString\<close>; an own property named
  \<^verbatim>\<open>toString\<close> shadows that method with something that is not callable, and then the
  conversion throws (\<^verbatim>\<open>Object.prototype.valueOf\<close> gives no primitive either). An array
  prints its elements joined by commas, \<^verbatim>\<open>undefined\<close> and \<^verbatim>\<open>null\<close> as nothing.
\<close>

fun toStringJS :: "jsval \<Rightarrow> string option"
  and joinElems :: "jsval list \<Rightarrow> string option" where
  "toStringJS JUndefined = Some ''undefined''"
| "toStringJS JNull = Some ''null''"
| "toStringJS (JBool b) = Some (if b then ''true'' else ''false'')"
| "toStringJS (JNum n) = Some (numToString n)"
| "toStringJS (JStr s) = Some s"
| "toStringJS (JArr xs) = joinElems xs"
| "toStringJS (JObj ps) =
     (if ''toString'' \<in> fst ` set ps then None else Some ''[object Object]'')"
| "joinElems [] = Some []"
| "joinElems (x # xs) =
     do {
       s \<leftarrow> (if x = JUndefined \<or> x = JNull then Some [] else toStringJS x);
       if xs = [] then Some s
       else do { r \<leftarrow> joinElems xs; Some (s @ '','' @ r) }
     }"

text \<open>
  \<^verbatim>\<open>v > 0\<close>. The operand is converted with ToNumber: \<^verbatim>\<open>undefined\<close> is \<open>NaN\<close>, \<^verbatim>\<open>null\<close> is
  \<open>0\<close>, \<^verbatim>\<open>true\<close> is \<open>1\<close>; an array or object is first converted to a string (which can
  throw as above), where \<^verbatim>\<open>[object Object]\<close> is \<open>NaN\<close>. What StringToNumber makes of a
  string is the runtime's: \<open>strPos s\<close> says whether the number read from \<open>s\<close> is
  greater than \<open>0\<close>.
\<close>

fun gtZero :: "(string \<Rightarrow> bool) \<Rightarrow> jsval \<Rightarrow> bool option" where
  "gtZero strPos JUndefined = Some False"
| "gtZero strPos JNull = Some False"
| "gtZero strPos (JBool b) = Some b"
| "gtZero strPos (JNum n) = Some (0 < n)"
| "gtZero strPos (JStr s) = Some (strPos s)"
| "gtZero strPos (JArr xs) = do { s \<leftarrow> toStringJS (JArr xs); Some (strPos s) }"
| "gtZero strPos (JObj ps) = do { s \<leftarrow> toStringJS (JObj ps); Some False }"

text \<open>\<^verbatim>\<open>arr.map(f)\<close>: only an array has a \<^verbatim>\<open>map\<close> method; on anything else the call
  throws. The callback runs on the elements from left to right and the first exception
  ends the loop.\<close>

primrec mapOpt :: "('a \<Rightarrow> 'b option) \<Rightarrow> 'a list \<Rightarrow> 'b list option" where
  "mapOpt f [] = Some []"
| "mapOpt f (x # xs) = do { y \<leftarrow> f x; ys \<leftarrow> mapOpt f xs; Some (y # ys) }"

fun arrayMap :: "(jsval \<Rightarrow> 'b option) \<Rightarrow> jsval \<Rightarrow> 'b list option" where
  "arrayMap f (JArr xs) = mapOpt f xs"
| "arrayMap f v = None"

text \<open>\<^verbatim>\<open>Object.entries(v)\<close> for a \<open>v\<close> that is neither \<^verbatim>\<open>undefined\<close> nor \<^verbatim>\<open>null\<close>: the own
  properties of a plain object, the indexed elements of an array, the indexed characters
  of a string, nothing for a number or boolean. \<^verbatim>\<open>Object.keys(v)\<close> lists the same keys.\<close>

fun objectEntries :: "jsval \<Rightarrow> (string \<times> jsval) list" where
  "objectEntries (JObj ps) = ps"
| "objectEntries (JArr xs) = zip (map natToString [0..<length xs]) xs"
| "objectEntries (JStr s) = zip (map natToString [0..<length s]) (map (\<lambda>c. JStr [c]) s)"
| "objectEntries v = []"

definition objectKeys :: "jsval \<Rightarrow> string list" where
  "objectKeys v = map fst (objectEntries v)"

section \<open>The context renderer: \<^verbatim>\<open>buildUserContext\<close>\<close>

text \<open>
  What the handler takes from its surroundings. \<^verbatim>\<open>buildUserContext\<close> reads the clock
  (\<^verbatim>\<open>new Date()\<close>) and prints it with \<^verbatim>\<open>toLocaleDateString\<close> and
  \<^verbatim>\<open>toLocaleTimeString\<close>: \<open>localeDate\<close> and \<open>localeTime\<close> are the two strings the runtime
  returns for that reading. \<open>strPositive\<close> is the runtime's StringToNumber, as far as
  \<^verbatim>\<open>> 0\<close> looks at it. \<open>upstream\<close> is \<^verbatim>\<open>anthropic.messages.create\<close>: the promise it returns
  for a request resolves with a response or rejects with a reason. \<open>replyInstant\<close> is the
  second clock reading, taken when the reply is built, as its UTC calendar fields.

  In a request, \<open>temperature\<close> is the decimal fraction the source writes (\<^verbatim>\<open>0.7\<close> is
  \<open>7 / 10\<close>) and a turn of \<open>messages\<close> is the pair of its \<^verbatim>\<open>role\<close> and its \<^verbatim>\<open>content\<close>.
\<close>

record api_request =
  model :: string
  max_tokens :: nat
  temperature :: rat
  system :: string
  messages :: "(string \<times> jsval) list"

datatype upstream_result = Resolved jsval | Rejected jsval

record instant =
  utcYear :: nat
  utcMonth :: nat
  utcDay :: nat
  utcHours :: nat
  utcMinutes :: nat
  utcSeconds :: nat
  utcMilliseconds :: nat

record world =
  localeDate :: string
  localeTime :: string
  strPositive :: "string \<Rightarrow> bool"
  upstream :: "api_request \<Rightarrow> upstream_result"
  replyInstant :: instant

text \<open>The first entry pushed: \<^verbatim>\<open>`Current date and time: ${date} at ${time}`\<close>.\<close>

definition dateLine :: "world \<Rightarrow> string" where
  "dateLine w = ''Current date and time: '' @ localeDate w @ '' at '' @ localeTime w"

text \<open>Each block of the function either pushes one entry onto \<^verbatim>\<open>context\<close> or leaves it
  as it is; \<open>ctx\<close> is the array before the block, the result the array after it.\<close>

definition addLocation :: "jsval \<Rightarrow> string list \<Rightarrow> string list option" where
  "addLocation userData ctx =
     do {
       loc \<leftarrow> getProp userData ''location'';
       if truthy loc then
         do { s \<leftarrow> toStringJS loc; Some (ctx @ [''User's location: '' @ s]) }
       else Some ctx
     }"

text \<open>The callback of \<^verbatim>\<open>userData.medications.map\<close>:
  \<^verbatim>\<open>`${med.name} at ${med.time} (${med.taken ? 'taken' : 'not taken yet'} today)`\<close>.\<close>

definition renderMed :: "jsval \<Rightarrow> string option" where
  "renderMed med =
     do {
       n \<leftarrow> getProp med ''name'';
       ns \<leftarrow> toStringJS n;
       t \<leftarrow> getProp med ''time'';
       ts \<leftarrow> toStringJS t;
       taken \<leftarrow> getProp med ''taken'';
       Some (ns @ '' at '' @ ts @ '' ('' @ (if truthy taken then ''taken'' else ''not taken yet'')
             @ '' today)'')
     }"

text \<open>\<^verbatim>\<open>v && v.length > 0\<close>: the right operand is evaluated only for a truthy \<open>v\<close>.\<close>

definition hasPositiveLength :: "world \<Rightarrow> jsval \<Rightarrow> bool option" where
  "hasPositiveLength w v =
     (if truthy v then do { len \<leftarrow> getProp v ''length''; gtZero (strPositive w) len }
      else Some False)"

definition addMedications :: "world \<Rightarrow> jsval \<Rightarrow> string list \<Rightarrow> string list option" where
  "addMedications w userData ctx =
     do {
       meds \<leftarrow> getProp userData ''medications'';
       nonEmpty \<leftarrow> hasPositiveLength w meds;
       if nonEmpty then
         do {
           rendered \<leftarrow> arrayMap renderMed meds;
           Some (ctx @ [''Current medications: '' @ joinWith '', '' rendered])
         }
       else Some ctx
     }"

text \<open>The callback of \<^verbatim>\<open>Object.entries(userData.itemLocations).map\<close>:
  \<^verbatim>\<open>`${item}: ${location}`\<close>; the key \<open>item\<close> is a string already.\<close>

fun renderItem :: "string \<times> jsval \<Rightarrow> string option" where
  "renderItem (item, location) = do { l \<leftarrow> toStringJS location; Some (item @ '': '' @ l) }"

definition addItemLocations :: "jsval \<Rightarrow> string list \<Rightarrow> string list option" where
  "addItemLocations userData ctx =
     do {
       locs \<leftarrow> getProp userData ''itemLocations'';
       if truthy locs \<and> 0 < length (objectKeys locs) then
         do {
           items \<leftarrow> mapOpt renderItem (objectEntries locs);
           Some (ctx @ [''Item locations: '' @ joinWith '', '' items])
         }
       else Some ctx
     }"

text \<open>\<^verbatim>\<open>`Water intake today: ${userData.waterIntake} cups out of ${userData.waterGoal || 8} cup daily goal`\<close>,
  under \<^verbatim>\<open>userData.waterIntake !== undefined\<close>.\<close>

definition addWaterIntake :: "jsval \<Rightarrow> string list \<Rightarrow> string list option" where
  "addWaterIntake userData ctx =
     do {
       intake \<leftarrow> getProp userData ''waterIntake'';
       if intake \<noteq> JUndefined then
         do {
           ws \<leftarrow> toStringJS intake;
           goal \<leftarrow> getProp userData ''waterGoal'';
           gs \<leftarrow> toStringJS (if truthy goal then goal else JNum 8);
           Some (ctx @ [''Water intake today: '' @ ws @ '' cups out of '' @ gs
                        @ '' cup daily goal''])
         }
       else Some ctx
     }"

text \<open>The callback of \<^verbatim>\<open>userData.emergencyContacts.map\<close>:
  \<^verbatim>\<open>`${contact.name}: ${contact.phone}`\<close>.\<close>

definition renderContact :: "jsval \<Rightarrow> string option" where
  "renderContact contact =
     do {
       n \<leftarrow> getProp contact ''name'';
       ns \<leftarrow> toStringJS n;
       p \<leftarrow> getProp contact ''phone'';
       ps \<leftarrow> toStringJS p;
       Some (ns @ '': '' @ ps)
     }"

definition addEmergencyContacts :: "world \<Rightarrow> jsval \<Rightarrow> string list \<Rightarrow> string list option" where
  "addEmergencyContacts w userData ctx =
     do {
       contacts \<leftarrow> getProp userData ''emergencyContacts'';
       nonEmpty \<leftarrow> hasPositiveLength w contacts;
       if nonEmpty then
         do {
           rendered \<leftarrow> arrayMap renderContact contacts;
           Some (ctx @ [''Emergency contacts: '' @ joinWith '', '' rendered])
         }
       else Some ctx
     }"

text \<open>The array \<^verbatim>\<open>context\<close> as it stands before \<^verbatim>\<open>return context.join('\n')\<close>.\<close>

definition contextEntries :: "world \<Rightarrow> jsval \<Rightarrow> string list option" where
  "contextEntries w userData =
     do {
       c1 \<leftarrow> addLocation userData [dateLine w];
       c2 \<leftarrow> addMedications w userData c1;
       c3 \<leftarrow> addItemLocations userData c2;
       c4 \<leftarrow> addWaterIntake userData c3;
       addEmergencyContacts w userData c4
     }"

definition buildUserContext :: "world \<Rightarrow> jsval \<Rightarrow> string option" where
  "buildUserContext w userData =
     do { entries \<leftarrow> contextEntries w userData; Some (joinWith ''\<newline>'' entries) }"

section \<open>The chat endpoint: \<^verbatim>\<open>router.post('/')\<close>\<close>

text \<open>
  \<^verbatim>\<open>Date.prototype.toISOString\<close> on the clock reading, given by its UTC calendar fields:
  \<^verbatim>\<open>YYYY-MM-DDTHH:mm:ss.sssZ\<close>, each field padded with zeros; a year after 9999 is
  written with a sign and six digits.
\<close>

definition padLeft :: "nat \<Rightarrow> nat \<Rightarrow> string" where
  "padLeft width n =
     replicate (width - length (natToString n)) (CHR ''0'') @ natToString n"

definition toISOString :: "instant \<Rightarrow> string" where
  "toISOString t =
     (if utcYear t \<le> 9999 then padLeft 4 (utcYear t) else ''+'' @ padLeft 6 (utcYear t))
     @ ''-'' @ padLeft 2 (utcMonth t) @ ''-'' @ padLeft 2 (utcDay t)
     @ ''T'' @ padLeft 2 (utcHours t) @ '':'' @ padLeft 2 (utcMinutes t)
     @ '':'' @ padLeft 2 (utcSeconds t) @ ''.'' @ padLeft 3 (utcMilliseconds t) @ ''Z''"

text \<open>The template literal \<^verbatim>\<open>systemPrompt\<close>: its fixed text before and after the one
  substitution \<^verbatim>\<open>${userContext}\<close>.\<close>

definition promptHead :: string where
  "promptHead =
     ''You are a helpful AI assistant for a senior adult. You help with daily tasks like:\<newline>''
     @ ''- Finding items around the house\<newline>''
     @ ''- Tracking medications and health\<newline>''
     @ ''- Answering questions about time, date, and weather\<newline>''
     @ ''- Providing general assistance and companionship\<newline>''
     @ ''\<newline>''
     @ ''Guidelines for responses:\<newline>''
     @ ''- Keep responses clear, warm, and easy to understand\<newline>''
     @ ''- Use simple language appropriate for seniors\<newline>''
     @ ''- Be patient and encouraging\<newline>''
     @ ''- If asked about medical advice, suggest consulting healthcare providers\<newline>''
     @ ''- Help with practical daily tasks\<newline>''
     @ ''- Be conversational and friendly\<newline>''
     @ ''\<newline>''
     @ ''Current user information:\<newline>''"

definition promptTail :: string where
  "promptTail =
     ''\<newline>''
     @ ''\<newline>''
     @ ''Remember to use this information to give personalized, helpful responses.''"

definition systemPrompt :: "string \<Rightarrow> string" where
  "systemPrompt userContext = promptHead @ userContext @ promptTail"

text \<open>The argument of \<^verbatim>\<open>anthropic.messages.create\<close>.\<close>

definition chatRequest :: "jsval \<Rightarrow> string \<Rightarrow> api_request" where
  "chatRequest message userContext =
     \<lparr> model = ''claude-3-sonnet-20240229'',
       max_tokens = 300,
       temperature = 7 / 10,
       system = systemPrompt userContext,
       messages = [(''user'', message)] \<rparr>"

text \<open>\<^verbatim>\<open>response.content[0].text\<close>.\<close>

definition firstText :: "jsval \<Rightarrow> jsval option" where
  "firstText response =
     do { content \<leftarrow> getProp response ''content''; block \<leftarrow> getFirst content;
          getProp block ''text'' }"

text \<open>
  What the handler sends with \<^verbatim>\<open>res.status(..).json(..)\<close>: the status (200 when
  \<^verbatim>\<open>res.json\<close> is called alone) and the object handed to \<^verbatim>\<open>json\<close>.
\<close>

record http_response =
  status :: nat
  body :: jsval

text \<open>
  What reaches the \<^verbatim>\<open>catch\<close> clause: a \<^verbatim>\<open>TypeError\<close> instance made by the runtime, or the
  reason the upstream promise rejected with.
\<close>

datatype thrown = TypeError | Reason jsval

text \<open>
  The \<^verbatim>\<open>try\<close> block. The result is what ended the block (a reply sent, or an exception),
  the requests handed to \<^verbatim>\<open>anthropic.messages.create\<close> so far, and the lines written with
  \<^verbatim>\<open>console.log\<close>. Destructuring \<^verbatim>\<open>req.body\<close> reads \<^verbatim>\<open>message\<close> and \<^verbatim>\<open>userData\<close>, the latter
  with the default \<^verbatim>\<open>{}\<close> in place of \<^verbatim>\<open>undefined\<close>.
\<close>

definition tryBlock ::
  "world \<Rightarrow> jsval \<Rightarrow> (thrown + http_response) \<times> api_request list \<times> string list" where
  "tryBlock w reqBody =
     (case getProp reqBody ''message'' of
        None \<Rightarrow> (Inl TypeError, [], [])
      | Some message \<Rightarrow>
     (case getProp reqBody ''userData'' of
        None \<Rightarrow> (Inl TypeError, [], [])
      | Some u \<Rightarrow>
     (let userData = (if u = JUndefined then JObj [] else u) in
      if \<not> truthy message \<or> typeofJS message \<noteq> ''string'' then
        (Inr \<lparr> status = 400,
               body = JObj [(''error'', JStr ''Message is required and must be a string'')] \<rparr>,
         [], [])
      else
     (case buildUserContext w userData of
        None \<Rightarrow> (Inl TypeError, [], [])
      | Some userContext \<Rightarrow>
     (let request = chatRequest message userContext in
      case upstream w request of
        Rejected reason \<Rightarrow> (Inl (Reason reason), [request], [])
      | Resolved response \<Rightarrow>
     (case firstText response of
        None \<Rightarrow> (Inl TypeError, [request], [])
      | Some claudeResponse \<Rightarrow>
     (case toStringJS message of
        None \<Rightarrow> (Inl TypeError, [request], [])
      | Some m \<Rightarrow>
     (case toStringJS claudeResponse of
        None \<Rightarrow> (Inl TypeError, [request], [''User: '' @ m])
      | Some c \<Rightarrow>
        (Inr \<lparr> status = 200,
               body = JObj [(''response'', claudeResponse),
                            (''timestamp'', JStr (toISOString (replyInstant w)))] \<rparr>,
         [request], [''User: '' @ m, ''Claude: '' @ c])))))))))"

text \<open>
  The \<^verbatim>\<open>catch\<close> clause reads \<^verbatim>\<open>error.status\<close> and compares it with \<^verbatim>\<open>===\<close>. A
  \<^verbatim>\<open>TypeError\<close> has no \<^verbatim>\<open>status\<close>. Reading the property of a reason that is \<^verbatim>\<open>undefined\<close>
  or \<^verbatim>\<open>null\<close> throws inside the clause, and then the handler sends nothing (\<open>None\<close>).
\<close>

fun errorStatus :: "thrown \<Rightarrow> jsval option" where
  "errorStatus TypeError = Some JUndefined"
| "errorStatus (Reason v) = getProp v ''status''"

definition catchBlock :: "thrown \<Rightarrow> http_response option" where
  "catchBlock error =
     do {
       st \<leftarrow> errorStatus error;
       if st = JNum 401 then
         Some \<lparr> status = 500,
                body = JObj [(''error'', JStr ''API authentication failed''),
                             (''fallback'', JStr ''I'm having trouble connecting right now. Please try again in a moment.'')] \<rparr>
       else if st = JNum 429 then
         Some \<lparr> status = 429,
                body = JObj [(''error'', JStr ''Rate limit exceeded''),
                             (''fallback'', JStr ''I'm getting too many requests right now. Please wait a moment and try again.'')] \<rparr>
       else
         Some \<lparr> status = 500,
                body = JObj [(''error'', JStr ''Failed to get response''),
                             (''fallback'', JStr ''I'm having trouble understanding right now. Could you try asking again?'')] \<rparr>
     }"

text \<open>One run of the handler on \<^verbatim>\<open>req.body\<close>: the reply it sent, if any, every request
  it made to the upstream API, in order, and its \<^verbatim>\<open>console.log\<close> lines.\<close>

record outcome =
  reply :: "http_response option"
  upstreamCalls :: "api_request list"
  consoleLog :: "string list"

definition chatHandler :: "world \<Rightarrow> jsval \<Rightarrow> outcome" where
  "chatHandler w reqBody =
     (case tryBlock w reqBody of
        (Inr sent, calls, logged) \<Rightarrow>
          \<lparr> reply = Some sent, upstreamCalls = calls, consoleLog = logged \<rparr>
      | (Inl error, calls, logged) \<Rightarrow>
          \<lparr> reply = catchBlock error, upstreamCalls = calls, consoleLog = logged \<rparr>)"

section \<open>Notions the specification uses\<close>

text \<open>The field \<open>k\<close> of a structure \<open>v\<close>: what \<^verbatim>\<open>v.k\<close> reads; a \<open>v\<close> that is
  \<^verbatim>\<open>undefined\<close> or \<^verbatim>\<open>null\<close>, where the read throws, has no fields.\<close>

definition field :: "jsval \<Rightarrow> string \<Rightarrow> jsval" where
  "field v k = (case getProp v k of None \<Rightarrow> JUndefined | Some x \<Rightarrow> x)"

text \<open>The five optional fields of \<^verbatim>\<open>userData\<close>, in the order the specification fixes for
  their lines, and the kind of an entry of the context, read off its label.\<close>

datatype optionalField = Location | Medications | ItemLocations | WaterIntake | EmergencyContacts

definition optionalFields :: "optionalField list" where
  "optionalFields = [Location, Medications, ItemLocations, WaterIntake, EmergencyContacts]"

datatype entryKind = DateTimeEntry | FieldEntry optionalField

definition kindOfEntry :: "string \<Rightarrow> entryKind option" where
  "kindOfEntry e =
     (if prefix ''Current date and time: '' e then Some DateTimeEntry
      else if prefix ''User's location: '' e then Some (FieldEntry Location)
      else if prefix ''Current medications: '' e then Some (FieldEntry Medications)
      else if prefix ''Item locations: '' e then Some (FieldEntry ItemLocations)
      else if prefix ''Water intake today: '' e then Some (FieldEntry WaterIntake)
      else if prefix ''Emergency contacts: '' e then Some (FieldEntry EmergencyContacts)
      else None)"

text \<open>A field is populated when it is "present and non-empty": a non-empty text, a
  non-empty sequence, a mapping with at least one key; the water intake, a number, when it
  is there at all.\<close>

fun populated :: "jsval \<Rightarrow> optionalField \<Rightarrow> bool" where
  "populated userData Location =
     (case field userData ''location'' of JStr s \<Rightarrow> s \<noteq> [] | _ \<Rightarrow> False)"
| "populated userData Medications =
     (case field userData ''medications'' of JArr xs \<Rightarrow> xs \<noteq> [] | _ \<Rightarrow> False)"
| "populated userData ItemLocations =
     (case field userData ''itemLocations'' of JObj ps \<Rightarrow> ps \<noteq> [] | _ \<Rightarrow> False)"
| "populated userData WaterIntake = (field userData ''waterIntake'' \<noteq> JUndefined)"
| "populated userData EmergencyContacts =
     (case field userData ''emergencyContacts'' of JArr xs \<Rightarrow> xs \<noteq> [] | _ \<Rightarrow> False)"

definition populatedCount :: "jsval \<Rightarrow> nat" where
  "populatedCount userData = length (filter (populated userData) optionalFields)"

text \<open>The data model of the specification (section 3): \<^verbatim>\<open>userData\<close> is a structure whose
  fields are optional; \<^verbatim>\<open>location\<close> is text, \<^verbatim>\<open>medications\<close> a sequence of
  \<^verbatim>\<open>{name, time, taken}\<close>, \<^verbatim>\<open>itemLocations\<close> a mapping from item names to location text,
  \<^verbatim>\<open>waterIntake\<close> and \<^verbatim>\<open>waterGoal\<close> numbers, \<^verbatim>\<open>emergencyContacts\<close> a sequence of
  \<^verbatim>\<open>{name, phone}\<close>.\<close>

fun isText :: "jsval \<Rightarrow> bool" where
  "isText (JStr s) = True"
| "isText v = False"

fun isNumber :: "jsval \<Rightarrow> bool" where
  "isNumber (JNum n) = True"
| "isNumber v = False"

fun isBoolean :: "jsval \<Rightarrow> bool" where
  "isBoolean (JBool b) = True"
| "isBoolean v = False"

fun isMedication :: "jsval \<Rightarrow> bool" where
  "isMedication (JObj ps) =
     (isText (field (JObj ps) ''name'') \<and> isText (field (JObj ps) ''time'')
      \<and> isBoolean (field (JObj ps) ''taken''))"
| "isMedication v = False"

fun isContact :: "jsval \<Rightarrow> bool" where
  "isContact (JObj ps) =
     (isText (field (JObj ps) ''name'') \<and> isText (field (JObj ps) ''phone''))"
| "isContact v = False"

fun isSequenceOf :: "(jsval \<Rightarrow> bool) \<Rightarrow> jsval \<Rightarrow> bool" where
  "isSequenceOf P (JArr xs) = list_all P xs"
| "isSequenceOf P v = False"

fun isTextMapping :: "jsval \<Rightarrow> bool" where
  "isTextMapping (JObj ps) = list_all (\<lambda>p. isText (snd p)) ps"
| "isTextMapping v = False"

definition absentOr :: "(jsval \<Rightarrow> bool) \<Rightarrow> jsval \<Rightarrow> bool" where
  "absentOr P v = (v = JUndefined \<or> P v)"

text \<open>A value that stands where a sequence should and has no positive \<^verbatim>\<open>length\<close>:
  \<^verbatim>\<open>null\<close>, a boolean, a number, the empty string, a plain object without a
  \<^verbatim>\<open>length\<close> property.\<close>

fun unsized :: "jsval \<Rightarrow> bool" where
  "unsized JUndefined = False"
| "unsized JNull = True"
| "unsized (JBool b) = True"
| "unsized (JNum n) = True"
| "unsized (JStr s) = (s = [])"
| "unsized (JArr xs) = False"
| "unsized (JObj ps) = (map_of ps ''length'' = None)"

text \<open>\<open>shapedUserData lax\<close>: the data model, where with \<open>lax\<close> a sequence field may also
  hold an unsized value. \<open>conformsUserData\<close> is the data model itself.\<close>

fun shapedUserData :: "bool \<Rightarrow> jsval \<Rightarrow> bool" where
  "shapedUserData lax (JObj ps) =
     (absentOr isText (field (JObj ps) ''location'')
      \<and> absentOr (\<lambda>v. isSequenceOf isMedication v \<or> (lax \<and> unsized v))
            (field (JObj ps) ''medications'')
      \<and> absentOr isTextMapping (field (JObj ps) ''itemLocations'')
      \<and> absentOr isNumber (field (JObj ps) ''waterIntake'')
      \<and> absentOr isNumber (field (JObj ps) ''waterGoal'')
      \<and> absentOr (\<lambda>v. isSequenceOf isContact v \<or> (lax \<and> unsized v))
            (field (JObj ps) ''emergencyContacts''))"
| "shapedUserData lax v = False"

definition conformsUserData :: "jsval \<Rightarrow> bool" where
  "conformsUserData userData = shapedUserData False userData"

text \<open>The lines of a text: the pieces between its newline characters, as
  \<^verbatim>\<open>s.split('\n')\<close> gives them.\<close>

fun splitLines :: "string \<Rightarrow> string list" where
  "splitLines [] = [[]]"
| "splitLines (c # cs) =
     (if c = CHR ''\<newline>'' then [] # splitLines cs
      else (case splitLines cs of [] \<Rightarrow> [[c]] | l # ls \<Rightarrow> (c # l) # ls))"

text \<open>The shape of an ISO-8601 instant as \<^verbatim>\<open>toISOString\<close> writes it,
  \<^verbatim>\<open>dddd-dd-ddTdd:dd:dd.dddZ\<close> with a decimal digit for every \<^verbatim>\<open>d\<close>.\<close>

definition isDigit :: "char \<Rightarrow> bool" where
  "isDigit c = (c \<in> set ''0123456789'')"

fun matchesMask :: "string \<Rightarrow> string \<Rightarrow> bool" where
  "matchesMask [] [] = True"
| "matchesMask (m # ms) (c # cs) =
     ((if m = CHR ''d'' then isDigit c else c = m) \<and> matchesMask ms cs)"
| "matchesMask ms cs = False"

definition isoWellFormed :: "string \<Rightarrow> bool" where
  "isoWellFormed s = matchesMask ''dddd-dd-ddTdd:dd:dd.dddZ'' s"

text \<open>A clock reading whose calendar fields are in range, with a four-digit year.\<close>

definition validInstant :: "instant \<Rightarrow> bool" where
  "validInstant t =
     (utcYear t \<le> 9999 \<and> 1 \<le> utcMonth t \<and> utcMonth t \<le> 12 \<and> 1 \<le> utcDay t \<and> utcDay t \<le> 31
      \<and> utcHours t < 24 \<and> utcMinutes t < 60 \<and> utcSeconds t < 60 \<and> utcMilliseconds t < 1000)"

text \<open>
  The requests that reach the model service in one run of the handler. The module builds
  its client with \<^verbatim>\<open>new Anthropic({apiKey: ...})\<close> and sets no retry option, so how often
  the client sends a request it was handed once (the first attempt and the client's own
  retries) is the client's: \<open>attempts r\<close> is that number for the request \<open>r\<close>.
\<close>

definition serviceRequests :: "(api_request \<Rightarrow> nat) \<Rightarrow> outcome \<Rightarrow> nat" where
  "serviceRequests attempts out = sum_list (map attempts (upstreamCalls out))"

section \<open>Sample surroundings and requests\<close>

text \<open>A runtime for the examples: a clock, a StringToNumber that reads unsigned decimal
  digit strings, and an upstream API that answers every request with \<open>r\<close>.\<close>

definition sampleWorld :: "upstream_result \<Rightarrow> world" where
  "sampleWorld r =
     \<lparr> localeDate = ''Tuesday, November 3, 2026'',
       localeTime = ''9:05 AM'',
       strPositive = (\<lambda>s. s \<noteq> [] \<and> list_all isDigit s \<and> \<not> list_all (\<lambda>c. c = CHR ''0'') s),
       upstream = (\<lambda>request. r),
       replyInstant = \<lparr> utcYear = 2026, utcMonth = 11, utcDay = 3, utcHours = 14,
                        utcMinutes = 5, utcSeconds = 9, utcMilliseconds = 42 \<rparr> \<rparr>"

definition sampleAnswer :: jsval where
  "sampleAnswer =
     JObj [(''id'', JStr ''msg_01''), (''role'', JStr ''assistant''),
           (''content'', JArr [JObj [(''type'', JStr ''text''),
                                     (''text'', JStr ''Your keys are on the hall table.'')]])]"

definition sampleUserData :: jsval where
  "sampleUserData =
     JObj [(''emergencyContacts'',
              JArr [JObj [(''name'', JStr ''Ann''), (''phone'', JStr ''555-0100'')]]),
           (''waterIntake'', JNum 0),
           (''medications'',
              JArr [JObj [(''name'', JStr ''Aspirin''), (''time'', JStr ''8:00 AM''),
                          (''taken'', JBool True)],
                    JObj [(''name'', JStr ''Statin''), (''time'', JStr ''9:00 PM''),
                          (''taken'', JBool False)]]),
           (''location'', JStr ''Boston'')]"

definition sampleBody :: jsval where
  "sampleBody = JObj [(''message'', JStr ''Where are my keys?''), (''userData'', sampleUserData)]"

text \<open>What \<^verbatim>\<open>buildUserContext\<close> renders for \<open>sampleUserData\<close> under the sample clock.\<close>

definition sampleContextText :: string where
  "sampleContextText =
     ''Current date and time: Tuesday, November 3, 2026 at 9:05 AM\<newline>''
     @ ''User's location: Boston\<newline>''
     @ ''Current medications: Aspirin at 8:00 AM (taken today), Statin at 9:00 PM (not taken yet today)\<newline>''
     @ ''Water intake today: 0 cups out of 8 cup daily goal\<newline>''
     @ ''Emergency contacts: Ann: 555-0100''"

text \<open>A location text of two lines; a medication list that is a string.\<close>

definition twoLineLocation :: jsval where
  "twoLineLocation = JObj [(''location'', JStr ''12 Elm Street\<newline>Apartment 2'')]"

definition stringMedications :: jsval where
  "stringMedications = JObj [(''medications'', JStr ''aspirin'')]"

definition numericMedications :: jsval where
  "numericMedications =
     JObj [(''location'', JStr ''Boston''), (''medications'', JNum 5),
           (''emergencyContacts'', JBool True)]"

text \<open>A body with a valid message and \<^verbatim>\<open>userData: null\<close>; a client that sends every
  request once, and one that sends it three times (the first attempt and two retries).\<close>

definition nullUserDataBody :: jsval where
  "nullUserDataBody = JObj [(''message'', JStr ''hi''), (''userData'', JNull)]"

definition singleAttemptClient :: "api_request \<Rightarrow> nat" where
  "singleAttemptClient r = 1"

definition retryingClient :: "api_request \<Rightarrow> nat" where
  "retryingClient r = 3"

section \<open>Validation of the request\<close>

lemma getProp_defined_for_all_keys:
  "getProp v k = Some x \<Longrightarrow> \<exists>u. getProp v k' = Some u"
  by (cases v) simp_all

lemma tryBlock_invalid:
  assumes "getProp reqBody ''message'' = Some m"
    and "\<not> truthy m \<or> typeofJS m \<noteq> ''string''"
  shows "tryBlock w reqBody =
     (Inr \<lparr> status = 400,
            body = JObj [(''error'', JStr ''Message is required and must be a string'')] \<rparr>,
      [], [])"
proof -
  obtain u where "getProp reqBody ''userData'' = Some u"
    using getProp_defined_for_all_keys [OF assms(1)] by blast
  with assms show ?thesis
    by (simp add: tryBlock_def Let_def)
qed

text \<open>
  Claim C1. When the body of the request has no \<^verbatim>\<open>message\<close> (reading it gives
  \<^verbatim>\<open>undefined\<close>), or a \<^verbatim>\<open>message\<close> that is \<^verbatim>\<open>null\<close> or of any type other than string, the
  handler replies with status 400 and the payload
  \<^verbatim>\<open>{error: 'Message is required and must be a string'}\<close>, and it has made no call to the
  upstream API.
\<close>

theorem non_string_message_is_rejected:
  assumes "getProp reqBody ''message'' = Some m"
    and "typeofJS m \<noteq> ''string''"
  shows "reply (chatHandler w reqBody) =
           Some \<lparr> status = 400,
                  body = JObj [(''error'', JStr ''Message is required and must be a string'')] \<rparr>
         \<and> upstreamCalls (chatHandler w reqBody) = []"
  using tryBlock_invalid [OF assms(1), of w] assms(2)
  by (simp add: chatHandler_def)

theorem non_string_message_is_rejected_witness:
  "reply (chatHandler (sampleWorld (Resolved sampleAnswer)) (JObj [(''message'', JNum 42)])) =
     Some \<lparr> status = 400,
            body = JObj [(''error'', JStr ''Message is required and must be a string'')] \<rparr>
   \<and> upstreamCalls (chatHandler (sampleWorld (Resolved sampleAnswer))
        (JObj [(''message'', JNum 42)])) = []
   \<and> reply (chatHandler (sampleWorld (Resolved sampleAnswer)) (JObj [(''userData'', JObj [])])) =
     Some \<lparr> status = 400,
            body = JObj [(''error'', JStr ''Message is required and must be a string'')] \<rparr>
   \<and> reply (chatHandler (sampleWorld (Resolved sampleAnswer)) (JObj [(''message'', JNull)])) =
     Some \<lparr> status = 400,
            body = JObj [(''error'', JStr ''Message is required and must be a string'')] \<rparr>"
  using non_string_message_is_rejected
          [of "JObj [(''message'', JNum 42)]" "JNum 42" "sampleWorld (Resolved sampleAnswer)"]
        non_string_message_is_rejected
          [of "JObj [(''userData'', JObj [])]" JUndefined "sampleWorld (Resolved sampleAnswer)"]
        non_string_message_is_rejected
          [of "JObj [(''message'', JNull)]" JNull "sampleWorld (Resolved sampleAnswer)"]
  by simp

text \<open>
  Claim C9. A \<^verbatim>\<open>message\<close> that is the empty string is rejected in the same way, although
  it is a string: status 400, the same payload, no call to the upstream API. The test
  \<^verbatim>\<open>!message\<close> refuses every falsy value.
\<close>

theorem empty_message_is_rejected:
  assumes "getProp reqBody ''message'' = Some (JStr [])"
  shows "reply (chatHandler w reqBody) =
           Some \<lparr> status = 400,
                  body = JObj [(''error'', JStr ''Message is required and must be a string'')] \<rparr>
         \<and> upstreamCalls (chatHandler w reqBody) = []"
  using tryBlock_invalid [OF assms(1), of w]
  by (simp add: chatHandler_def)

theorem empty_message_is_rejected_witness:
  "reply (chatHandler (sampleWorld (Resolved sampleAnswer))
            (JObj [(''message'', JStr []), (''userData'', sampleUserData)])) =
     Some \<lparr> status = 400,
            body = JObj [(''error'', JStr ''Message is required and must be a string'')] \<rparr>
   \<and> upstreamCalls (chatHandler (sampleWorld (Resolved sampleAnswer))
        (JObj [(''message'', JStr []), (''userData'', sampleUserData)])) = []"
  using empty_message_is_rejected
          [of "JObj [(''message'', JStr []), (''userData'', sampleUserData)]"
              "sampleWorld (Resolved sampleAnswer)"]
  by simp

section \<open>Evaluating the renderer on the samples\<close>

lemmas renderer_defs =
  buildUserContext_def contextEntries_def dateLine_def addLocation_def addMedications_def
  addItemLocations_def addWaterIntake_def addEmergencyContacts_def hasPositiveLength_def
  renderMed_def renderContact_def objectKeys_def numToString_def natToString.simps digitChar_def

lemma sample_context:
  "buildUserContext (sampleWorld r) sampleUserData = Some sampleContextText"
  by (simp add: renderer_defs sampleWorld_def sampleUserData_def sampleContextText_def)

section \<open>A valid request\<close>

text \<open>After validation and rendering, the \<^verbatim>\<open>try\<close> block is the upstream call and what
  follows it.\<close>

lemma tryBlock_valid:
  assumes "getProp reqBody ''message'' = Some (JStr m)" and "m \<noteq> []"
    and "getProp reqBody ''userData'' = Some u"
    and "buildUserContext w (if u = JUndefined then JObj [] else u) = Some userContext"
  shows "tryBlock w reqBody =
     (case upstream w (chatRequest (JStr m) userContext) of
        Rejected reason \<Rightarrow> (Inl (Reason reason), [chatRequest (JStr m) userContext], [])
      | Resolved answer \<Rightarrow>
     (case firstText answer of
        None \<Rightarrow> (Inl TypeError, [chatRequest (JStr m) userContext], [])
      | Some claudeResponse \<Rightarrow>
     (case toStringJS claudeResponse of
        None \<Rightarrow> (Inl TypeError, [chatRequest (JStr m) userContext], [''User: '' @ m])
      | Some c \<Rightarrow>
        (Inr \<lparr> status = 200,
               body = JObj [(''response'', claudeResponse),
                            (''timestamp'', JStr (toISOString (replyInstant w)))] \<rparr>,
         [chatRequest (JStr m) userContext], [''User: '' @ m, ''Claude: '' @ c]))))"
  using assms
  by (simp add: tryBlock_def Let_def split: option.splits upstream_result.splits)

text \<open>
  Claim C8. For a request with a non-empty string \<^verbatim>\<open>message\<close> whose \<^verbatim>\<open>userData\<close> the
  renderer turns into the text \<open>userContext\<close>, the handler calls the upstream API with
  exactly this request: the model name, \<^verbatim>\<open>max_tokens\<close> 300, \<^verbatim>\<open>temperature\<close> 0.7, as
  \<^verbatim>\<open>system\<close> the persona template with \<open>userContext\<close> spliced in unchanged right after the
  line \<^verbatim>\<open>Current user information:\<close>, and as \<^verbatim>\<open>messages\<close> the single turn of role
  \<^verbatim>\<open>user\<close> whose content is the caller's message.
\<close>

theorem upstream_request_shape:
  assumes "getProp reqBody ''message'' = Some (JStr m)" and "m \<noteq> []"
    and "getProp reqBody ''userData'' = Some u"
    and "buildUserContext w (if u = JUndefined then JObj [] else u) = Some userContext"
  shows "upstreamCalls (chatHandler w reqBody) =
           [\<lparr> model = ''claude-3-sonnet-20240229'', max_tokens = 300, temperature = 7 / 10,
              system = promptHead @ userContext @ promptTail,
              messages = [(''user'', JStr m)] \<rparr>]
         \<and> suffix ''Current user information:\<newline>'' promptHead"
proof
  show "upstreamCalls (chatHandler w reqBody) =
           [\<lparr> model = ''claude-3-sonnet-20240229'', max_tokens = 300, temperature = 7 / 10,
              system = promptHead @ userContext @ promptTail,
              messages = [(''user'', JStr m)] \<rparr>]"
    using tryBlock_valid [OF assms(1-4)]
    by (simp add: chatHandler_def chatRequest_def systemPrompt_def
        split: upstream_result.splits option.splits)
  show "suffix ''Current user information:\<newline>'' promptHead"
    unfolding promptHead_def by (intro suffix_appendI) simp
qed

theorem upstream_request_shape_witness:
  "upstreamCalls (chatHandler (sampleWorld (Resolved sampleAnswer)) sampleBody) =
     [\<lparr> model = ''claude-3-sonnet-20240229'', max_tokens = 300, temperature = 7 / 10,
        system = promptHead @ sampleContextText @ promptTail,
        messages = [(''user'', JStr ''Where are my keys?'')] \<rparr>]
   \<and> suffix ''Current user information:\<newline>'' promptHead"
  using upstream_request_shape
          [where reqBody = sampleBody and m = "''Where are my keys?''" and u = sampleUserData
             and w = "sampleWorld (Resolved sampleAnswer)" and userContext = sampleContextText]
        sample_context [of "Resolved sampleAnswer"]
  by (simp add: sampleBody_def sampleUserData_def)

text \<open>
  Claim C3. When the upstream call of such a request is rejected with a reason \<open>err\<close>
  whose \<^verbatim>\<open>status\<close> is \<open>st\<close>: for \<open>st\<close> = 401 the reply is status 500 with the error code
  \<^verbatim>\<open>API authentication failed\<close>; for \<open>st\<close> = 429 it is status 429 with the code
  \<^verbatim>\<open>Rate limit exceeded\<close>; for every other \<open>st\<close> (also none at all) it is status 500 with
  the code \<^verbatim>\<open>Failed to get response\<close>. Each reply has an \<^verbatim>\<open>error\<close> and a \<^verbatim>\<open>fallback\<close>
  field, the three fallback sentences are non-empty and differ from each other, and the
  upstream API was called once.
\<close>

theorem upstream_errors_are_mapped:
  assumes "getProp reqBody ''message'' = Some (JStr m)" and "m \<noteq> []"
    and "getProp reqBody ''userData'' = Some u"
    and "buildUserContext w (if u = JUndefined then JObj [] else u) = Some userContext"
    and "upstream w (chatRequest (JStr m) userContext) = Rejected err"
    and "getProp err ''status'' = Some st"
  shows "(st = JNum 401 \<longrightarrow>
            reply (chatHandler w reqBody) =
              Some \<lparr> status = 500,
                     body = JObj [(''error'', JStr ''API authentication failed''),
                                  (''fallback'', JStr ''I'm having trouble connecting right now. Please try again in a moment.'')] \<rparr>)
         \<and> (st = JNum 429 \<longrightarrow>
            reply (chatHandler w reqBody) =
              Some \<lparr> status = 429,
                     body = JObj [(''error'', JStr ''Rate limit exceeded''),
                                  (''fallback'', JStr ''I'm getting too many requests right now. Please wait a moment and try again.'')] \<rparr>)
         \<and> (st \<noteq> JNum 401 \<and> st \<noteq> JNum 429 \<longrightarrow>
            reply (chatHandler w reqBody) =
              Some \<lparr> status = 500,
                     body = JObj [(''error'', JStr ''Failed to get response''),
                                  (''fallback'', JStr ''I'm having trouble understanding right now. Could you try asking again?'')] \<rparr>)
         \<and> (\<exists>sent code sentence.
               reply (chatHandler w reqBody) = Some sent
               \<and> field (body sent) ''error'' = JStr code
               \<and> field (body sent) ''fallback'' = JStr sentence \<and> sentence \<noteq> [])
         \<and> upstreamCalls (chatHandler w reqBody) = [chatRequest (JStr m) userContext]"
  using tryBlock_valid [OF assms(1-4)] assms(5,6)
  by (simp add: chatHandler_def catchBlock_def field_def)

theorem upstream_errors_are_mapped_witness:
  "reply (chatHandler (sampleWorld (Rejected (JObj [(''status'', JNum 401)]))) sampleBody) =
     Some \<lparr> status = 500,
            body = JObj [(''error'', JStr ''API authentication failed''),
                         (''fallback'', JStr ''I'm having trouble connecting right now. Please try again in a moment.'')] \<rparr>
   \<and> reply (chatHandler (sampleWorld (Rejected (JObj [(''status'', JNum 429)]))) sampleBody) =
     Some \<lparr> status = 429,
            body = JObj [(''error'', JStr ''Rate limit exceeded''),
                         (''fallback'', JStr ''I'm getting too many requests right now. Please wait a moment and try again.'')] \<rparr>
   \<and> reply (chatHandler (sampleWorld (Rejected (JObj [(''code'', JStr ''ECONNRESET'')])))
        sampleBody) =
     Some \<lparr> status = 500,
            body = JObj [(''error'', JStr ''Failed to get response''),
                         (''fallback'', JStr ''I'm having trouble understanding right now. Could you try asking again?'')] \<rparr>
   \<and> upstreamCalls (chatHandler (sampleWorld (Rejected (JObj [(''status'', JNum 429)])))
        sampleBody) =
     [chatRequest (JStr ''Where are my keys?'') sampleContextText]"
  using upstream_errors_are_mapped
          [where reqBody = sampleBody and m = "''Where are my keys?''" and u = sampleUserData
             and w = "sampleWorld (Rejected (JObj [(''status'', JNum 401)]))"
             and userContext = sampleContextText and err = "JObj [(''status'', JNum 401)]"
             and st = "JNum 401"]
        upstream_errors_are_mapped
          [where reqBody = sampleBody and m = "''Where are my keys?''" and u = sampleUserData
             and w = "sampleWorld (Rejected (JObj [(''status'', JNum 429)]))"
             and userContext = sampleContextText and err = "JObj [(''status'', JNum 429)]"
             and st = "JNum 429"]
        upstream_errors_are_mapped
          [where reqBody = sampleBody and m = "''Where are my keys?''" and u = sampleUserData
             and w = "sampleWorld (Rejected (JObj [(''code'', JStr ''ECONNRESET'')]))"
             and userContext = sampleContextText
             and err = "JObj [(''code'', JStr ''ECONNRESET'')]" and st = JUndefined]
        sample_context
  by (simp add: sampleBody_def sampleUserData_def sampleWorld_def)

section \<open>The timestamp\<close>

lemma natToString_digits: "list_all isDigit (natToString n)"
proof (induction n rule: natToString.induct)
  case (1 n)
  have d: "isDigit (digitChar k)" for k
    by (simp add: digitChar_def isDigit_def)
  show ?case
  proof (cases "n < 10")
    case True
    then show ?thesis by (subst natToString.simps) (simp add: d)
  next
    case False
    with 1 show ?thesis by (subst natToString.simps) (simp add: d)
  qed
qed

lemma natToString_length: "n < 10 ^ k \<Longrightarrow> 0 < k \<Longrightarrow> length (natToString n) \<le> k"
proof (induction n arbitrary: k rule: natToString.induct)
  case (1 n)
  show ?case
  proof (cases "n < 10")
    case True
    with 1(3) show ?thesis by (subst natToString.simps) simp
  next
    case False
    obtain j where k: "k = Suc j" using 1(3) by (cases k) auto
    have "j \<noteq> 0" using False 1(2) k by (cases j) auto
    moreover have "n div 10 < 10 ^ j"
      using 1(2) k by (simp add: less_mult_imp_div_less mult.commute)
    ultimately have "length (natToString (n div 10)) \<le> j"
      using 1(1) [OF False, of j] by simp
    with False k show ?thesis by (subst natToString.simps) simp
  qed
qed

lemma padLeft_digits:
  assumes "n < 10 ^ k" and "0 < k"
  shows "length (padLeft k n) = k \<and> list_all isDigit (padLeft k n)"
proof -
  have z: "isDigit (CHR ''0'')" by (simp add: isDigit_def)
  show ?thesis
    using natToString_length [OF assms] natToString_digits [of n] z
    by (auto simp add: padLeft_def list_all_iff)
qed

lemma matchesMask_digits:
  "list_all isDigit s \<Longrightarrow>
   matchesMask (replicate (length s) (CHR ''d'') @ ms) (s @ cs) = matchesMask ms cs"
  by (induction s) simp_all

lemma matchesMask_pad:
  assumes "n < 10 ^ k" and "0 < k"
  shows "matchesMask (replicate k (CHR ''d'') @ ms) (padLeft k n @ cs) = matchesMask ms cs"
  using matchesMask_digits [of "padLeft k n" ms cs] padLeft_digits [OF assms] by simp

lemma toISOString_wellFormed:
  assumes "validInstant t"
  shows "isoWellFormed (toISOString t)"
proof -
  have mask: "''dddd-dd-ddTdd:dd:dd.dddZ'' =
      replicate 4 (CHR ''d'') @ CHR ''-'' # replicate 2 (CHR ''d'') @ CHR ''-'' #
      replicate 2 (CHR ''d'') @ CHR ''T'' # replicate 2 (CHR ''d'') @ CHR '':'' #
      replicate 2 (CHR ''d'') @ CHR '':'' # replicate 2 (CHR ''d'') @ CHR ''.'' #
      replicate 3 (CHR ''d'') @ ''Z''"
    by (simp add: numeral_eq_Suc)
  from assms have r: "utcYear t < 10 ^ 4" "utcMonth t < 10 ^ 2" "utcDay t < 10 ^ 2"
    "utcHours t < 10 ^ 2" "utcMinutes t < 10 ^ 2" "utcSeconds t < 10 ^ 2"
    "utcMilliseconds t < 10 ^ 3" "utcYear t \<le> 9999"
    by (simp_all add: validInstant_def)
  show ?thesis
    unfolding isoWellFormed_def toISOString_def mask
    using r by (simp add: matchesMask_pad)
qed

text \<open>
  Claim C5. For a request with a non-empty string \<^verbatim>\<open>message\<close> whose context renders,
  when the upstream call resolves with an answer whose first content block has the
  \<^verbatim>\<open>text\<close> \<open>txt\<close> (a value the log line can print), the reply is status 200 with the body
  \<^verbatim>\<open>{response: txt, timestamp: t}\<close>, where \<open>t\<close> is \<^verbatim>\<open>toISOString\<close> of the server's clock
  and, for a clock reading in range, has the form \<^verbatim>\<open>YYYY-MM-DDTHH:mm:ss.sssZ\<close>.
\<close>

theorem successful_chat_reply:
  assumes "getProp reqBody ''message'' = Some (JStr m)" and "m \<noteq> []"
    and "getProp reqBody ''userData'' = Some u"
    and "buildUserContext w (if u = JUndefined then JObj [] else u) = Some userContext"
    and "upstream w (chatRequest (JStr m) userContext) = Resolved answer"
    and "getProp answer ''content'' = Some blocks"
    and "getFirst blocks = Some block"
    and "getProp block ''text'' = Some txt"
    and "toStringJS txt = Some shown"
    and "validInstant (replyInstant w)"
  shows "reply (chatHandler w reqBody) =
           Some \<lparr> status = 200,
                  body = JObj [(''response'', txt),
                               (''timestamp'', JStr (toISOString (replyInstant w)))] \<rparr>
         \<and> isoWellFormed (toISOString (replyInstant w))"
  using tryBlock_valid [OF assms(1-4)] assms(5-9) toISOString_wellFormed [OF assms(10)]
  by (simp add: chatHandler_def firstText_def)

theorem successful_chat_reply_witness:
  "reply (chatHandler (sampleWorld (Resolved sampleAnswer)) sampleBody) =
     Some \<lparr> status = 200,
            body = JObj [(''response'', JStr ''Your keys are on the hall table.''),
                         (''timestamp'', JStr ''2026-11-03T14:05:09.042Z'')] \<rparr>
   \<and> isoWellFormed ''2026-11-03T14:05:09.042Z''"
proof -
  have t: "toISOString \<lparr> utcYear = 2026, utcMonth = 11, utcDay = 3, utcHours = 14,
                          utcMinutes = 5, utcSeconds = 9, utcMilliseconds = 42 \<rparr> =
             ''2026-11-03T14:05:09.042Z''"
    by (simp add: toISOString_def padLeft_def natToString.simps digitChar_def)
  have v: "validInstant (replyInstant (sampleWorld (Resolved sampleAnswer)))"
    by (simp add: sampleWorld_def validInstant_def)
  have c: "buildUserContext (sampleWorld (Resolved sampleAnswer))
             (if sampleUserData = JUndefined then JObj [] else sampleUserData) =
           Some sampleContextText"
    using sample_context [of "Resolved sampleAnswer"] by (simp add: sampleUserData_def)
  show ?thesis
    using successful_chat_reply [of sampleBody "''Where are my keys?''" sampleUserData
        "sampleWorld (Resolved sampleAnswer)" sampleContextText sampleAnswer
        "JArr [JObj [(''type'', JStr ''text''),
                     (''text'', JStr ''Your keys are on the hall table.'')]]"
        "JObj [(''type'', JStr ''text''), (''text'', JStr ''Your keys are on the hall table.'')]"
        "JStr ''Your keys are on the hall table.''" "''Your keys are on the hall table.''",
        OF _ _ _ c _ _ _ _ _ v]
    by (simp add: t sampleBody_def sampleAnswer_def sampleWorld_def)
qed

section \<open>The structure of the rendered context\<close>

text \<open>Every block appends to the array it is given and does not look at it.\<close>

lemma addLocation_append:
  "addLocation userData ctx = map_option ((@) ctx) (addLocation userData [])"
  by (simp add: addLocation_def split: bind_splits)

lemma addMedications_append:
  "addMedications w userData ctx = map_option ((@) ctx) (addMedications w userData [])"
  by (simp add: addMedications_def split: bind_splits)

lemma addItemLocations_append:
  "addItemLocations userData ctx = map_option ((@) ctx) (addItemLocations userData [])"
  by (simp add: addItemLocations_def split: bind_splits)

lemma addWaterIntake_append:
  "addWaterIntake userData ctx = map_option ((@) ctx) (addWaterIntake userData [])"
  by (simp add: addWaterIntake_def split: bind_splits)

lemma addEmergencyContacts_append:
  "addEmergencyContacts w userData ctx =
     map_option ((@) ctx) (addEmergencyContacts w userData [])"
  by (simp add: addEmergencyContacts_def split: bind_splits)

lemma contextEntries_blocks:
  "contextEntries w userData =
     do {
       e1 \<leftarrow> addLocation userData [];
       e2 \<leftarrow> addMedications w userData [];
       e3 \<leftarrow> addItemLocations userData [];
       e4 \<leftarrow> addWaterIntake userData [];
       e5 \<leftarrow> addEmergencyContacts w userData [];
       Some (dateLine w # e1 @ e2 @ e3 @ e4 @ e5)
     }"
proof -
  have l: "addLocation userData ctx = map_option ((@) ctx) (addLocation userData [])" for ctx
    by (rule addLocation_append)
  have m: "addMedications w userData ctx = map_option ((@) ctx) (addMedications w userData [])"
    for ctx by (rule addMedications_append)
  have i: "addItemLocations userData ctx = map_option ((@) ctx) (addItemLocations userData [])"
    for ctx by (rule addItemLocations_append)
  have t: "addWaterIntake userData ctx = map_option ((@) ctx) (addWaterIntake userData [])"
    for ctx by (rule addWaterIntake_append)
  have e: "addEmergencyContacts w userData ctx =
             map_option ((@) ctx) (addEmergencyContacts w userData [])"
    for ctx by (rule addEmergencyContacts_append)
  show ?thesis
    unfolding contextEntries_def
    by (cases "addLocation userData []"; cases "addMedications w userData []";
        cases "addItemLocations userData []"; cases "addWaterIntake userData []";
        cases "addEmergencyContacts w userData []")
       (simp_all add: l [of "[dateLine w]"] m [of "dateLine w # _"] i [of "dateLine w # _"]
          t [of "dateLine w # _"] e [of "dateLine w # _"])
qed

lemma contextEntries_parts:
  assumes "contextEntries w userData = Some entries"
  obtains e1 e2 e3 e4 e5 where
    "addLocation userData [] = Some e1" "addMedications w userData [] = Some e2"
    "addItemLocations userData [] = Some e3" "addWaterIntake userData [] = Some e4"
    "addEmergencyContacts w userData [] = Some e5"
    "entries = dateLine w # e1 @ e2 @ e3 @ e4 @ e5"
  using assms by (auto simp add: contextEntries_blocks split: bind_splits)

lemma buildUserContext_entries:
  "buildUserContext w userData = Some out \<Longrightarrow>
   \<exists>entries. contextEntries w userData = Some entries \<and> out = joinWith ''\<newline>'' entries"
  by (auto simp add: buildUserContext_def split: bind_splits)

text \<open>The label of an entry tells which block pushed it.\<close>

lemma kindOfEntry_labels:
  "kindOfEntry (''Current date and time: '' @ x) = Some DateTimeEntry"
  "kindOfEntry (''User's location: '' @ x) = Some (FieldEntry Location)"
  "kindOfEntry (''Current medications: '' @ x) = Some (FieldEntry Medications)"
  "kindOfEntry (''Item locations: '' @ x) = Some (FieldEntry ItemLocations)"
  "kindOfEntry (''Water intake today: '' @ x) = Some (FieldEntry WaterIntake)"
  "kindOfEntry (''Emergency contacts: '' @ x) = Some (FieldEntry EmergencyContacts)"
  by (simp_all add: kindOfEntry_def)

lemmas kindOfEntry_consed [simp] = kindOfEntry_labels [simplified]

lemma kindOfEntry_dateLine [simp]: "kindOfEntry (dateLine w) = Some DateTimeEntry"
  by (simp add: dateLine_def)

lemma addLocation_kind:
  "addLocation userData [] = Some e \<Longrightarrow>
   \<forall>x \<in> set e. kindOfEntry x = Some (FieldEntry Location)"
  by (auto simp add: addLocation_def split: bind_splits if_splits)

lemma addMedications_kind:
  "addMedications w userData [] = Some e \<Longrightarrow>
   \<forall>x \<in> set e. kindOfEntry x = Some (FieldEntry Medications)"
  by (auto simp add: addMedications_def split: bind_splits if_splits)

lemma addItemLocations_kind:
  "addItemLocations userData [] = Some e \<Longrightarrow>
   \<forall>x \<in> set e. kindOfEntry x = Some (FieldEntry ItemLocations)"
  by (auto simp add: addItemLocations_def split: bind_splits if_splits)

lemma addWaterIntake_kind:
  "addWaterIntake userData [] = Some e \<Longrightarrow>
   \<forall>x \<in> set e. kindOfEntry x = Some (FieldEntry WaterIntake)"
  by (auto simp add: addWaterIntake_def split: bind_splits if_splits)

lemma addEmergencyContacts_kind:
  "addEmergencyContacts w userData [] = Some e \<Longrightarrow>
   \<forall>x \<in> set e. kindOfEntry x = Some (FieldEntry EmergencyContacts)"
  by (auto simp add: addEmergencyContacts_def split: bind_splits if_splits)

lemma filter_none: "\<forall>x \<in> set xs. \<not> P x \<Longrightarrow> filter P xs = []"
  by (induction xs) auto

lemma filter_all: "\<forall>x \<in> set xs. P x \<Longrightarrow> filter P xs = xs"
  by (induction xs) auto

section \<open>The water-intake line\<close>

lemma numToString_8 [simp]: "numToString 8 = ''8''"
  by (simp add: numToString_def natToString.simps digitChar_def)

lemma numToString_0 [simp]: "numToString 0 = ''0''"
  by (simp add: numToString_def natToString.simps digitChar_def)

lemma addWaterIntake_present:
  assumes "addWaterIntake userData [] = Some e"
    and "field userData ''waterIntake'' \<noteq> JUndefined"
  shows "\<exists>ws gs. toStringJS (field userData ''waterIntake'') = Some ws
           \<and> toStringJS (if truthy (field userData ''waterGoal'')
                          then field userData ''waterGoal'' else JNum 8) = Some gs
           \<and> e = [''Water intake today: '' @ ws @ '' cups out of '' @ gs @ '' cup daily goal'']"
  using assms
  by (auto simp add: addWaterIntake_def field_def split: bind_splits if_splits)

lemma water_entry:
  assumes "contextEntries w userData = Some entries"
    and "field userData ''waterIntake'' \<noteq> JUndefined"
  shows "\<exists>ws gs. toStringJS (field userData ''waterIntake'') = Some ws
           \<and> toStringJS (if truthy (field userData ''waterGoal'')
                          then field userData ''waterGoal'' else JNum 8) = Some gs
           \<and> filter (\<lambda>e. kindOfEntry e = Some (FieldEntry WaterIntake)) entries =
               [''Water intake today: '' @ ws @ '' cups out of '' @ gs @ '' cup daily goal'']"
proof -
  from assms(1) obtain e1 e2 e3 e4 e5 where
    b: "addLocation userData [] = Some e1" "addMedications w userData [] = Some e2"
       "addItemLocations userData [] = Some e3" "addWaterIntake userData [] = Some e4"
       "addEmergencyContacts w userData [] = Some e5"
    and e: "entries = dateLine w # e1 @ e2 @ e3 @ e4 @ e5"
    by (rule contextEntries_parts)
  let ?P = "\<lambda>e. kindOfEntry e = Some (FieldEntry WaterIntake)"
  have "filter ?P e1 = []" "filter ?P e2 = []" "filter ?P e3 = []" "filter ?P e5 = []"
    using addLocation_kind [OF b(1)] addMedications_kind [OF b(2)]
      addItemLocations_kind [OF b(3)] addEmergencyContacts_kind [OF b(5)]
    by (simp_all add: filter_none)
  moreover have "filter ?P e4 = e4"
    using addWaterIntake_kind [OF b(4)] by (simp add: filter_all)
  ultimately have "filter ?P entries = e4"
    by (simp add: e)
  with addWaterIntake_present [OF b(4) assms(2)] show ?thesis by auto
qed

text \<open>
  Claim C6. Whenever \<^verbatim>\<open>buildUserContext\<close> returns for a \<^verbatim>\<open>userData\<close> whose
  \<^verbatim>\<open>waterIntake\<close> is not \<^verbatim>\<open>undefined\<close> and whose \<^verbatim>\<open>waterGoal\<close> is absent, the context has
  exactly one water-intake entry, and it reads
  \<^verbatim>\<open>Water intake today: <intake> cups out of 8 cup daily goal\<close>.
\<close>

theorem absent_goal_renders_as_8:
  assumes "buildUserContext w userData = Some out"
    and "field userData ''waterIntake'' \<noteq> JUndefined"
    and "field userData ''waterGoal'' = JUndefined"
  shows "\<exists>entries ws. contextEntries w userData = Some entries
           \<and> out = joinWith ''\<newline>'' entries
           \<and> toStringJS (field userData ''waterIntake'') = Some ws
           \<and> filter (\<lambda>e. kindOfEntry e = Some (FieldEntry WaterIntake)) entries =
               [''Water intake today: '' @ ws @ '' cups out of 8 cup daily goal'']"
proof -
  from buildUserContext_entries [OF assms(1)] obtain entries where
    e: "contextEntries w userData = Some entries" "out = joinWith ''\<newline>'' entries"
    by blast
  from water_entry [OF e(1) assms(2)] assms(3) e show ?thesis
    by auto
qed

theorem absent_goal_renders_as_8_witness:
  "buildUserContext (sampleWorld (Resolved sampleAnswer)) (JObj [(''waterIntake'', JNum 3)]) =
     Some (''Current date and time: Tuesday, November 3, 2026 at 9:05 AM\<newline>''
           @ ''Water intake today: 3 cups out of 8 cup daily goal'')
   \<and> (\<exists>entries ws.
         contextEntries (sampleWorld (Resolved sampleAnswer)) (JObj [(''waterIntake'', JNum 3)]) =
           Some entries
         \<and> toStringJS (field (JObj [(''waterIntake'', JNum 3)]) ''waterIntake'') = Some ws
         \<and> filter (\<lambda>e. kindOfEntry e = Some (FieldEntry WaterIntake)) entries =
             [''Water intake today: '' @ ws @ '' cups out of 8 cup daily goal''])"
proof -
  have b: "buildUserContext (sampleWorld (Resolved sampleAnswer))
             (JObj [(''waterIntake'', JNum 3)]) =
           Some (''Current date and time: Tuesday, November 3, 2026 at 9:05 AM\<newline>''
                 @ ''Water intake today: 3 cups out of 8 cup daily goal'')"
    by (simp add: renderer_defs sampleWorld_def)
  have i: "field (JObj [(''waterIntake'', JNum 3)]) ''waterIntake'' \<noteq> JUndefined"
    by (simp add: field_def)
  have g: "field (JObj [(''waterIntake'', JNum 3)]) ''waterGoal'' = JUndefined"
    by (simp add: field_def)
  from absent_goal_renders_as_8 [OF b i g] b show ?thesis
    by blast
qed

text \<open>
  Claim C10. Whenever \<^verbatim>\<open>buildUserContext\<close> returns: a \<^verbatim>\<open>waterIntake\<close> of 0 still gets its
  entry, \<^verbatim>\<open>Water intake today: 0 cups out of <goal> cup daily goal\<close>; and when
  \<^verbatim>\<open>waterIntake\<close> is present and \<^verbatim>\<open>waterGoal\<close> is falsy (0 as well as absent), the goal
  is written as 8.
\<close>

theorem zero_intake_is_rendered_and_zero_goal_defaults:
  assumes "buildUserContext w userData = Some out"
  shows "\<exists>entries. contextEntries w userData = Some entries
           \<and> out = joinWith ''\<newline>'' entries
           \<and> (field userData ''waterIntake'' = JNum 0 \<longrightarrow>
                (\<exists>gs. filter (\<lambda>e. kindOfEntry e = Some (FieldEntry WaterIntake)) entries =
                   [''Water intake today: 0 cups out of '' @ gs @ '' cup daily goal'']))
           \<and> (field userData ''waterIntake'' \<noteq> JUndefined
                \<and> \<not> truthy (field userData ''waterGoal'') \<longrightarrow>
                (\<exists>ws. toStringJS (field userData ''waterIntake'') = Some ws
                   \<and> filter (\<lambda>e. kindOfEntry e = Some (FieldEntry WaterIntake)) entries =
                       [''Water intake today: '' @ ws @ '' cups out of 8 cup daily goal'']))"
proof -
  from buildUserContext_entries [OF assms(1)] obtain entries where
    e: "contextEntries w userData = Some entries" "out = joinWith ''\<newline>'' entries"
    by blast
  have a: "\<exists>gs. filter (\<lambda>e. kindOfEntry e = Some (FieldEntry WaterIntake)) entries =
                   [''Water intake today: 0 cups out of '' @ gs @ '' cup daily goal'']"
    if "field userData ''waterIntake'' = JNum 0"
    using water_entry [OF e(1)] that by auto
  have b: "\<exists>ws. toStringJS (field userData ''waterIntake'') = Some ws
                   \<and> filter (\<lambda>e. kindOfEntry e = Some (FieldEntry WaterIntake)) entries =
                       [''Water intake today: '' @ ws @ '' cups out of 8 cup daily goal'']"
    if "field userData ''waterIntake'' \<noteq> JUndefined" "\<not> truthy (field userData ''waterGoal'')"
    using water_entry [OF e(1) that(1)] that(2) by auto
  from a b e show ?thesis by blast
qed

theorem zero_intake_is_rendered_and_zero_goal_defaults_witness:
  "buildUserContext (sampleWorld (Resolved sampleAnswer))
     (JObj [(''waterGoal'', JNum 0), (''waterIntake'', JNum 0)]) =
     Some (''Current date and time: Tuesday, November 3, 2026 at 9:05 AM\<newline>''
           @ ''Water intake today: 0 cups out of 8 cup daily goal'')
   \<and> (\<exists>entries.
         contextEntries (sampleWorld (Resolved sampleAnswer))
           (JObj [(''waterGoal'', JNum 0), (''waterIntake'', JNum 0)]) = Some entries
         \<and> filter (\<lambda>e. kindOfEntry e = Some (FieldEntry WaterIntake)) entries =
             [''Water intake today: 0 cups out of 8 cup daily goal''])"
proof -
  let ?u = "JObj [(''waterGoal'', JNum 0), (''waterIntake'', JNum 0)]"
  have b: "buildUserContext (sampleWorld (Resolved sampleAnswer)) ?u =
           Some (''Current date and time: Tuesday, November 3, 2026 at 9:05 AM\<newline>''
                 @ ''Water intake today: 0 cups out of 8 cup daily goal'')"
    by (simp add: renderer_defs sampleWorld_def)
  have i: "field ?u ''waterIntake'' = JNum 0" "field ?u ''waterGoal'' = JNum 0"
    by (simp_all add: field_def)
  from zero_intake_is_rendered_and_zero_goal_defaults [OF b] b i show ?thesis
    by auto
qed

section \<open>User data of the data model\<close>

lemma getProp_field: "getProp (JObj ps) k = Some (field (JObj ps) k)"
  by (simp add: field_def)

lemma isText_iff: "isText v \<longleftrightarrow> (\<exists>s. v = JStr s)"
  by (cases v) simp_all

lemma mapOpt_defined: "\<forall>x \<in> set xs. \<exists>y. f x = Some y \<Longrightarrow> \<exists>ys. mapOpt f xs = Some ys"
  by (induction xs) auto

lemma renderMed_defined: "isMedication m \<Longrightarrow> \<exists>s. renderMed m = Some s"
  by (cases m) (auto simp add: renderMed_def getProp_field isText_iff simp del: getProp.simps)

lemma renderContact_defined: "isContact c \<Longrightarrow> \<exists>s. renderContact c = Some s"
  by (cases c) (auto simp add: renderContact_def getProp_field isText_iff simp del: getProp.simps)

lemma renderItem_defined: "isText (snd p) \<Longrightarrow> \<exists>s. renderItem p = Some s"
  by (cases p; cases "snd p") auto

lemma hasPositiveLength_array: "hasPositiveLength w (JArr xs) = Some (xs \<noteq> [])"
  by (simp add: hasPositiveLength_def)

lemma hasPositiveLength_unsized: "unsized v \<Longrightarrow> hasPositiveLength w v = Some False"
  by (cases v) (simp_all add: hasPositiveLength_def)

lemma unsized_not_populated:
  "unsized (field userData ''medications'') \<Longrightarrow> \<not> populated userData Medications"
  "unsized (field userData ''emergencyContacts'') \<Longrightarrow> \<not> populated userData EmergencyContacts"
  by (cases "field userData ''medications''"; simp)
     (cases "field userData ''emergencyContacts''"; simp)

lemma addLocation_shaped:
  assumes "absentOr isText (field (JObj ps) ''location'')"
  shows "\<exists>e. addLocation (JObj ps) [] = Some e
          \<and> map kindOfEntry e =
              (if populated (JObj ps) Location then [Some (FieldEntry Location)] else [])"
proof (cases "field (JObj ps) ''location''")
  case (JStr s)
  then show ?thesis
    by (simp add: addLocation_def getProp_field del: getProp.simps)
qed (use assms in \<open>simp_all add: addLocation_def getProp_field absentOr_def del: getProp.simps\<close>)

lemma addMedications_shaped:
  assumes "absentOr (\<lambda>v. isSequenceOf isMedication v \<or> (lax \<and> unsized v))
             (field (JObj ps) ''medications'')"
  shows "\<exists>e. addMedications w (JObj ps) [] = Some e
          \<and> map kindOfEntry e =
              (if populated (JObj ps) Medications then [Some (FieldEntry Medications)] else [])"
proof -
  let ?v = "field (JObj ps) ''medications''"
  consider "?v = JUndefined" | xs where "?v = JArr xs" "list_all isMedication xs"
    | "unsized ?v"
    using assms by (cases ?v) (auto simp add: absentOr_def)
  then show ?thesis
  proof cases
    case 1
    then show ?thesis
      by (simp add: addMedications_def getProp_field hasPositiveLength_def del: getProp.simps)
  next
    case 2
    then obtain ys where "mapOpt renderMed xs = Some ys"
      using mapOpt_defined [of xs renderMed] renderMed_defined by (auto simp add: list_all_iff)
    with 2 show ?thesis
      by (simp add: addMedications_def getProp_field hasPositiveLength_array del: getProp.simps)
  next
    case 3
    with unsized_not_populated(1) [OF 3] show ?thesis
      by (simp add: addMedications_def getProp_field hasPositiveLength_unsized
          del: getProp.simps populated.simps)
  qed
qed

lemma addItemLocations_shaped:
  assumes "absentOr isTextMapping (field (JObj ps) ''itemLocations'')"
  shows "\<exists>e. addItemLocations (JObj ps) [] = Some e
          \<and> map kindOfEntry e =
              (if populated (JObj ps) ItemLocations then [Some (FieldEntry ItemLocations)] else [])"
proof (cases "field (JObj ps) ''itemLocations''")
  case (JObj qs)
  with assms have "list_all (\<lambda>p. isText (snd p)) qs"
    by (simp add: absentOr_def)
  then obtain ys where "mapOpt renderItem qs = Some ys"
    using mapOpt_defined [of qs renderItem] renderItem_defined by (auto simp add: list_all_iff)
  with JObj show ?thesis
    by (simp add: addItemLocations_def getProp_field objectKeys_def del: getProp.simps)
qed (use assms in
    \<open>simp_all add: addItemLocations_def getProp_field absentOr_def del: getProp.simps\<close>)

lemma addWaterIntake_shaped:
  assumes "absentOr isNumber (field (JObj ps) ''waterIntake'')"
    and "absentOr isNumber (field (JObj ps) ''waterGoal'')"
  shows "\<exists>e. addWaterIntake (JObj ps) [] = Some e
          \<and> map kindOfEntry e =
              (if populated (JObj ps) WaterIntake then [Some (FieldEntry WaterIntake)] else [])"
proof (cases "field (JObj ps) ''waterIntake''")
  case (JNum n)
  have "\<exists>gs. toStringJS (if truthy (field (JObj ps) ''waterGoal'')
               then field (JObj ps) ''waterGoal'' else JNum 8) = Some gs"
    using assms(2) by (cases "field (JObj ps) ''waterGoal''") (simp_all add: absentOr_def)
  with JNum show ?thesis
    by (auto simp add: addWaterIntake_def getProp_field simp del: getProp.simps)
qed (use assms in
    \<open>simp_all add: addWaterIntake_def getProp_field absentOr_def del: getProp.simps\<close>)

lemma addEmergencyContacts_shaped:
  assumes "absentOr (\<lambda>v. isSequenceOf isContact v \<or> (lax \<and> unsized v))
             (field (JObj ps) ''emergencyContacts'')"
  shows "\<exists>e. addEmergencyContacts w (JObj ps) [] = Some e
          \<and> map kindOfEntry e =
              (if populated (JObj ps) EmergencyContacts
               then [Some (FieldEntry EmergencyContacts)] else [])"
proof -
  let ?v = "field (JObj ps) ''emergencyContacts''"
  consider "?v = JUndefined" | xs where "?v = JArr xs" "list_all isContact xs"
    | "unsized ?v"
    using assms by (cases ?v) (auto simp add: absentOr_def)
  then show ?thesis
  proof cases
    case 1
    then show ?thesis
      by (simp add: addEmergencyContacts_def getProp_field hasPositiveLength_def
          del: getProp.simps)
  next
    case 2
    then obtain ys where "mapOpt renderContact xs = Some ys"
      using mapOpt_defined [of xs renderContact] renderContact_defined
      by (auto simp add: list_all_iff)
    with 2 show ?thesis
      by (simp add: addEmergencyContacts_def getProp_field hasPositiveLength_array
          del: getProp.simps)
  next
    case 3
    with unsized_not_populated(2) [OF 3] show ?thesis
      by (simp add: addEmergencyContacts_def getProp_field hasPositiveLength_unsized
          del: getProp.simps populated.simps)
  qed
qed

text \<open>For user data of the data model, also with unsized values in the place of the two
  sequences, every block returns, and the kinds of the entries are the populated fields
  in the fixed order, after the date and time.\<close>

lemma contextEntries_shaped:
  assumes "shapedUserData lax userData"
  shows "\<exists>entries. contextEntries w userData = Some entries
           \<and> hd entries = dateLine w
           \<and> map kindOfEntry entries =
               Some DateTimeEntry #
               map (\<lambda>f. Some (FieldEntry f)) (filter (populated userData) optionalFields)"
proof -
  from assms obtain ps where u: "userData = JObj ps"
    by (cases userData) simp_all
  from assms u have s:
    "absentOr isText (field (JObj ps) ''location'')"
    "absentOr (\<lambda>v. isSequenceOf isMedication v \<or> (lax \<and> unsized v))
       (field (JObj ps) ''medications'')"
    "absentOr isTextMapping (field (JObj ps) ''itemLocations'')"
    "absentOr isNumber (field (JObj ps) ''waterIntake'')"
    "absentOr isNumber (field (JObj ps) ''waterGoal'')"
    "absentOr (\<lambda>v. isSequenceOf isContact v \<or> (lax \<and> unsized v))
       (field (JObj ps) ''emergencyContacts'')"
    by simp_all
  from addLocation_shaped [OF s(1)] obtain e1 where
    e1: "addLocation (JObj ps) [] = Some e1"
        "map kindOfEntry e1 =
           (if populated (JObj ps) Location then [Some (FieldEntry Location)] else [])"
    by blast
  from addMedications_shaped [OF s(2), of w] obtain e2 where
    e2: "addMedications w (JObj ps) [] = Some e2"
        "map kindOfEntry e2 =
           (if populated (JObj ps) Medications then [Some (FieldEntry Medications)] else [])"
    by blast
  from addItemLocations_shaped [OF s(3)] obtain e3 where
    e3: "addItemLocations (JObj ps) [] = Some e3"
        "map kindOfEntry e3 =
           (if populated (JObj ps) ItemLocations then [Some (FieldEntry ItemLocations)] else [])"
    by blast
  from addWaterIntake_shaped [OF s(4,5)] obtain e4 where
    e4: "addWaterIntake (JObj ps) [] = Some e4"
        "map kindOfEntry e4 =
           (if populated (JObj ps) WaterIntake then [Some (FieldEntry WaterIntake)] else [])"
    by blast
  from addEmergencyContacts_shaped [OF s(6), of w] obtain e5 where
    e5: "addEmergencyContacts w (JObj ps) [] = Some e5"
        "map kindOfEntry e5 =
           (if populated (JObj ps) EmergencyContacts
            then [Some (FieldEntry EmergencyContacts)] else [])"
    by blast
  have "contextEntries w userData = Some (dateLine w # e1 @ e2 @ e3 @ e4 @ e5)"
    by (simp add: contextEntries_blocks u e1(1) e2(1) e3(1) e4(1) e5(1))
  moreover have "hd (dateLine w # e1 @ e2 @ e3 @ e4 @ e5) = dateLine w"
    by simp
  moreover have "map kindOfEntry (dateLine w # e1 @ e2 @ e3 @ e4 @ e5) =
     Some DateTimeEntry #
     map (\<lambda>f. Some (FieldEntry f)) (filter (populated userData) optionalFields)"
    by (simp add: e1(2) e2(2) e3(2) e4(2) e5(2) u optionalFields_def del: populated.simps)
  ultimately show ?thesis by (intro exI conjI)
qed

section \<open>Lines\<close>

lemma splitLines_nonempty: "splitLines s \<noteq> []"
  by (induction s) (simp_all split: list.splits)

lemma splitLines_append_plain:
  "CHR ''\<newline>'' \<notin> set x \<Longrightarrow>
   splitLines (x @ s) = (x @ hd (splitLines s)) # tl (splitLines s)"
  using splitLines_nonempty [of s]
  by (induction x) (auto split: list.splits)

lemma splitLines_plain: "CHR ''\<newline>'' \<notin> set x \<Longrightarrow> splitLines x = [x]"
  using splitLines_append_plain [of x "[]"] by simp

lemma splitLines_joinWith:
  "entries \<noteq> [] \<Longrightarrow> \<forall>e \<in> set entries. CHR ''\<newline>'' \<notin> set e \<Longrightarrow>
   splitLines (joinWith ''\<newline>'' entries) = entries"
proof (induction "''\<newline>''" entries rule: joinWith.induct)
  case 1
  then show ?case by simp
next
  case (2 x)
  then show ?case by (simp add: splitLines_plain)
next
  case (3 x y ys)
  then show ?case by (simp add: splitLines_append_plain)
qed

lemma empty_userData_context: "buildUserContext w (JObj []) = Some (dateLine w)"
  by (simp add: buildUserContext_def contextEntries_def addLocation_def addMedications_def
      addItemLocations_def addWaterIntake_def addEmergencyContacts_def hasPositiveLength_def)

text \<open>
  Claim C2, as the code has it. For every \<^verbatim>\<open>userData\<close> of the data model in which exactly
  N of the five optional fields are populated, \<^verbatim>\<open>buildUserContext\<close> returns N+1 entries
  joined by newline characters: the date/time entry first, then one entry for each
  populated field, in the order location, medications, item locations, water intake,
  emergency contacts, whatever the order of the keys in \<^verbatim>\<open>userData\<close>; a field that is
  missing or empty has no entry. These entries are the lines of the result when no entry
  has a newline character in it. For the empty \<^verbatim>\<open>userData\<close> the result is the date/time
  line alone.
\<close>

theorem one_entry_per_populated_field:
  assumes "conformsUserData userData"
  shows "(\<exists>entries. contextEntries w userData = Some entries
            \<and> buildUserContext w userData = Some (joinWith ''\<newline>'' entries)
            \<and> length entries = populatedCount userData + 1
            \<and> hd entries = dateLine w
            \<and> map kindOfEntry entries =
                Some DateTimeEntry #
                map (\<lambda>f. Some (FieldEntry f)) (filter (populated userData) optionalFields)
            \<and> ((\<forall>e \<in> set entries. CHR ''\<newline>'' \<notin> set e) \<longrightarrow>
                 splitLines (joinWith ''\<newline>'' entries) = entries))
         \<and> buildUserContext w (JObj []) = Some (dateLine w)"
proof -
  from assms have "shapedUserData False userData"
    by (simp add: conformsUserData_def)
  from contextEntries_shaped [OF this, of w] obtain entries where
    e: "contextEntries w userData = Some entries" "hd entries = dateLine w"
       "map kindOfEntry entries =
          Some DateTimeEntry #
          map (\<lambda>f. Some (FieldEntry f)) (filter (populated userData) optionalFields)"
    by (elim exE conjE)
  have "length (map kindOfEntry entries) = populatedCount userData + 1"
    unfolding e(3) by (simp add: populatedCount_def)
  then have n: "length entries = populatedCount userData + 1"
    by simp
  then have "entries \<noteq> []"
    by auto
  then have l: "(\<forall>e \<in> set entries. CHR ''\<newline>'' \<notin> set e) \<longrightarrow>
                 splitLines (joinWith ''\<newline>'' entries) = entries"
    using splitLines_joinWith [of entries] by simp
  have b: "buildUserContext w userData = Some (joinWith ''\<newline>'' entries)"
    by (simp add: buildUserContext_def e(1))
  show ?thesis
    using e b n l empty_userData_context [of w]
    by (intro conjI exI [of _ entries]) assumption+
qed

theorem one_entry_per_populated_field_witness:
  "conformsUserData sampleUserData
   \<and> populatedCount sampleUserData = 4
   \<and> buildUserContext (sampleWorld (Resolved sampleAnswer)) sampleUserData =
       Some sampleContextText
   \<and> (\<exists>entries.
        contextEntries (sampleWorld (Resolved sampleAnswer)) sampleUserData = Some entries
        \<and> length entries = populatedCount sampleUserData + 1
        \<and> map kindOfEntry entries =
            [Some DateTimeEntry, Some (FieldEntry Location), Some (FieldEntry Medications),
             Some (FieldEntry WaterIntake), Some (FieldEntry EmergencyContacts)])"
proof -
  have c: "conformsUserData sampleUserData"
    by (simp add: conformsUserData_def sampleUserData_def absentOr_def field_def)
  have p: "filter (populated sampleUserData) optionalFields =
             [Location, Medications, WaterIntake, EmergencyContacts]"
    by (simp add: optionalFields_def sampleUserData_def field_def)
  have n: "populatedCount sampleUserData = 4"
    by (simp add: populatedCount_def p)
  from one_entry_per_populated_field [OF c, of "sampleWorld (Resolved sampleAnswer)"]
    c n sample_context [of "Resolved sampleAnswer"] show ?thesis
    by (auto simp add: p)
qed

text \<open>
  The claim as the specification words it counts lines. A location of two lines is one
  populated field and gives a context of three lines.
\<close>

theorem newline_in_location_counterexample:
  "conformsUserData twoLineLocation
   \<and> populatedCount twoLineLocation = 1
   \<and> buildUserContext (sampleWorld (Resolved sampleAnswer)) twoLineLocation =
       Some (''Current date and time: Tuesday, November 3, 2026 at 9:05 AM\<newline>''
             @ ''User's location: 12 Elm Street\<newline>''
             @ ''Apartment 2'')
   \<and> splitLines (''Current date and time: Tuesday, November 3, 2026 at 9:05 AM\<newline>''
                  @ ''User's location: 12 Elm Street\<newline>''
                  @ ''Apartment 2'') =
       [''Current date and time: Tuesday, November 3, 2026 at 9:05 AM'',
        ''User's location: 12 Elm Street'', ''Apartment 2'']"
proof (intro conjI)
  show "conformsUserData twoLineLocation"
    by (simp add: conformsUserData_def twoLineLocation_def absentOr_def field_def)
  show "populatedCount twoLineLocation = 1"
    by (simp add: populatedCount_def optionalFields_def twoLineLocation_def field_def)
  show "buildUserContext (sampleWorld (Resolved sampleAnswer)) twoLineLocation =
       Some (''Current date and time: Tuesday, November 3, 2026 at 9:05 AM\<newline>''
             @ ''User's location: 12 Elm Street\<newline>''
             @ ''Apartment 2'')"
    by (simp add: renderer_defs sampleWorld_def twoLineLocation_def)
  show "splitLines (''Current date and time: Tuesday, November 3, 2026 at 9:05 AM\<newline>''
                  @ ''User's location: 12 Elm Street\<newline>''
                  @ ''Apartment 2'') =
       [''Current date and time: Tuesday, November 3, 2026 at 9:05 AM'',
        ''User's location: 12 Elm Street'', ''Apartment 2'']"
    by simp
qed

section \<open>Malformed sequences\<close>

lemma addMedications_string:
  assumes "field userData ''medications'' = JStr s" and "s \<noteq> []"
  shows "addMedications w userData ctx = None"
  using assms
  by (cases "getProp userData ''medications''")
     (simp_all add: field_def addMedications_def hasPositiveLength_def)

lemma addEmergencyContacts_string:
  assumes "field userData ''emergencyContacts'' = JStr s" and "s \<noteq> []"
  shows "addEmergencyContacts w userData ctx = None"
  using assms
  by (cases "getProp userData ''emergencyContacts''")
     (simp_all add: field_def addEmergencyContacts_def hasPositiveLength_def)

lemma string_sequence_throws:
  assumes "s \<noteq> []"
    and "field userData ''medications'' = JStr s \<or> field userData ''emergencyContacts'' = JStr s"
  shows "buildUserContext w userData = None"
proof -
  have "contextEntries w userData = None"
    using assms addMedications_string [of userData s w] addEmergencyContacts_string [of userData s w]
    by (auto simp add: contextEntries_def split: bind_splits)
  then show ?thesis
    by (simp add: buildUserContext_def)
qed

text \<open>
  Claim C4, as the code has it. \<^verbatim>\<open>buildUserContext\<close> does not check the shapes of the
  fields. On user data of the data model it returns, and it also returns, with no entry
  for the field, when \<^verbatim>\<open>medications\<close> or \<^verbatim>\<open>emergencyContacts\<close> holds \<^verbatim>\<open>null\<close>, a number, a
  boolean, the empty string or a plain object without a \<^verbatim>\<open>length\<close> in the place of a
  sequence. When one of the two holds a non-empty string, \<^verbatim>\<open>buildUserContext\<close> throws:
  the string has a positive \<^verbatim>\<open>length\<close> and no \<^verbatim>\<open>map\<close> method.
\<close>

theorem unsized_sequences_are_skipped:
  "(shapedUserData True userData \<longrightarrow>
      (\<exists>entries. contextEntries w userData = Some entries
         \<and> buildUserContext w userData = Some (joinWith ''\<newline>'' entries)
         \<and> (unsized (field userData ''medications'') \<longrightarrow>
              Some (FieldEntry Medications) \<notin> set (map kindOfEntry entries))
         \<and> (unsized (field userData ''emergencyContacts'') \<longrightarrow>
              Some (FieldEntry EmergencyContacts) \<notin> set (map kindOfEntry entries))))
   \<and> ((\<exists>s. s \<noteq> [] \<and> (field userData ''medications'' = JStr s
                      \<or> field userData ''emergencyContacts'' = JStr s)) \<longrightarrow>
        buildUserContext w userData = None)"
proof (intro conjI impI)
  assume "shapedUserData True userData"
  from contextEntries_shaped [OF this, of w] obtain entries where
    e: "contextEntries w userData = Some entries"
       "map kindOfEntry entries =
          Some DateTimeEntry #
          map (\<lambda>f. Some (FieldEntry f)) (filter (populated userData) optionalFields)"
    by (elim exE conjE)
  have b: "buildUserContext w userData = Some (joinWith ''\<newline>'' entries)"
    by (simp add: buildUserContext_def e(1))
  have m: "unsized (field userData ''medications'') \<longrightarrow>
             Some (FieldEntry Medications) \<notin> set (map kindOfEntry entries)"
    unfolding e(2) using unsized_not_populated(1) [of userData] by auto
  have c: "unsized (field userData ''emergencyContacts'') \<longrightarrow>
             Some (FieldEntry EmergencyContacts) \<notin> set (map kindOfEntry entries)"
    unfolding e(2) using unsized_not_populated(2) [of userData] by auto
  show "\<exists>entries. contextEntries w userData = Some entries
         \<and> buildUserContext w userData = Some (joinWith ''\<newline>'' entries)
         \<and> (unsized (field userData ''medications'') \<longrightarrow>
              Some (FieldEntry Medications) \<notin> set (map kindOfEntry entries))
         \<and> (unsized (field userData ''emergencyContacts'') \<longrightarrow>
              Some (FieldEntry EmergencyContacts) \<notin> set (map kindOfEntry entries))"
    using e(1) b m c by (intro exI [of _ entries] conjI) assumption+
next
  assume "\<exists>s. s \<noteq> [] \<and> (field userData ''medications'' = JStr s
                      \<or> field userData ''emergencyContacts'' = JStr s)"
  then show "buildUserContext w userData = None"
    using string_sequence_throws [of _ userData w] by blast
qed

theorem unsized_sequences_are_skipped_witness:
  "shapedUserData True numericMedications
   \<and> unsized (field numericMedications ''medications'')
   \<and> unsized (field numericMedications ''emergencyContacts'')
   \<and> buildUserContext (sampleWorld (Resolved sampleAnswer)) numericMedications =
       Some (''Current date and time: Tuesday, November 3, 2026 at 9:05 AM\<newline>''
             @ ''User's location: Boston'')
   \<and> (\<exists>entries.
         contextEntries (sampleWorld (Resolved sampleAnswer)) numericMedications = Some entries
         \<and> Some (FieldEntry Medications) \<notin> set (map kindOfEntry entries)
         \<and> Some (FieldEntry EmergencyContacts) \<notin> set (map kindOfEntry entries))
   \<and> buildUserContext (sampleWorld (Resolved sampleAnswer))
        (JObj [(''emergencyContacts'', JStr ''Ann 555-0100'')]) = None"
proof -
  have s: "shapedUserData True numericMedications"
    by (simp add: numericMedications_def absentOr_def field_def)
  have u: "unsized (field numericMedications ''medications'')"
          "unsized (field numericMedications ''emergencyContacts'')"
    by (simp_all add: numericMedications_def field_def)
  have b: "buildUserContext (sampleWorld (Resolved sampleAnswer)) numericMedications =
       Some (''Current date and time: Tuesday, November 3, 2026 at 9:05 AM\<newline>''
             @ ''User's location: Boston'')"
    by (simp add: renderer_defs sampleWorld_def numericMedications_def)
  have f: "field (JObj [(''emergencyContacts'', JStr ''Ann 555-0100'')]) ''emergencyContacts'' =
             JStr ''Ann 555-0100''"
    by (simp add: field_def)
  from unsized_sequences_are_skipped [of numericMedications "sampleWorld (Resolved sampleAnswer)"]
    unsized_sequences_are_skipped
      [of "JObj [(''emergencyContacts'', JStr ''Ann 555-0100'')]"
          "sampleWorld (Resolved sampleAnswer)"]
    s u b f show ?thesis
    by auto
qed

text \<open>
  The claim as the specification words it: a \<^verbatim>\<open>medications\<close> that is a string is treated
  as empty. On the string \<^verbatim>\<open>"aspirin"\<close> the function throws.
\<close>

theorem string_medications_counterexample:
  "buildUserContext (sampleWorld (Resolved sampleAnswer)) stringMedications = None"
  by (simp add: renderer_defs sampleWorld_def stringMedications_def)

section \<open>Calls to the upstream API\<close>

lemma valid_message_iff:
  "truthy msg \<and> typeofJS msg = ''string'' \<longleftrightarrow> (\<exists>m. msg = JStr m \<and> m \<noteq> [])"
  by (cases msg) auto

lemma tryBlock_no_body:
  "getProp reqBody ''message'' = None \<Longrightarrow> tryBlock w reqBody = (Inl TypeError, [], [])"
  by (simp add: tryBlock_def)

lemma tryBlock_render_throws:
  assumes "getProp reqBody ''message'' = Some (JStr m)" and "m \<noteq> []"
    and "getProp reqBody ''userData'' = Some u"
    and "buildUserContext w (if u = JUndefined then JObj [] else u) = None"
  shows "tryBlock w reqBody = (Inl TypeError, [], [])"
  using assms by (simp add: tryBlock_def Let_def)

lemma tryBlock_valid_calls:
  assumes "getProp reqBody ''message'' = Some (JStr m)" and "m \<noteq> []"
    and "getProp reqBody ''userData'' = Some u"
    and "buildUserContext w (if u = JUndefined then JObj [] else u) = Some userContext"
  shows "fst (snd (tryBlock w reqBody)) = [chatRequest (JStr m) userContext]"
  using tryBlock_valid [OF assms]
  by (simp split: upstream_result.splits option.splits)

lemma upstreamCalls_chatHandler:
  "upstreamCalls (chatHandler w reqBody) = fst (snd (tryBlock w reqBody))"
  by (simp add: chatHandler_def split: prod.splits sum.splits)

text \<open>
  Claim C7, as the code has it. In one run the handler calls
  \<^verbatim>\<open>anthropic.messages.create\<close> at most once and never again after a failure. It makes no
  call when \<^verbatim>\<open>req.body\<close> cannot be destructured, when the message fails validation, and
  also when the message is valid but rendering \<^verbatim>\<open>userData\<close> throws; it makes exactly one
  call, with the assembled request, in every other case, whether the call then resolves,
  rejects or resolves with something malformed. The handler adds no request of its own to
  what the client sends for that one call: the service sees \<open>attempts r\<close> requests, which is
  one only if the client does not retry.
\<close>

theorem handler_calls_client_at_most_once:
  "length (upstreamCalls (chatHandler w reqBody)) \<le> 1
   \<and> (getProp reqBody ''message'' = None \<longrightarrow> upstreamCalls (chatHandler w reqBody) = [])
   \<and> (\<forall>msg. getProp reqBody ''message'' = Some msg
          \<and> (\<not> truthy msg \<or> typeofJS msg \<noteq> ''string'') \<longrightarrow>
        upstreamCalls (chatHandler w reqBody) = [])
   \<and> (\<forall>msg u. getProp reqBody ''message'' = Some msg
          \<and> truthy msg \<and> typeofJS msg = ''string''
          \<and> getProp reqBody ''userData'' = Some u
          \<and> buildUserContext w (if u = JUndefined then JObj [] else u) = None \<longrightarrow>
        upstreamCalls (chatHandler w reqBody) = [])
   \<and> (\<forall>msg u userContext. getProp reqBody ''message'' = Some msg
          \<and> truthy msg \<and> typeofJS msg = ''string''
          \<and> getProp reqBody ''userData'' = Some u
          \<and> buildUserContext w (if u = JUndefined then JObj [] else u) = Some userContext \<longrightarrow>
        upstreamCalls (chatHandler w reqBody) = [chatRequest msg userContext]
        \<and> serviceRequests attempts (chatHandler w reqBody) =
            attempts (chatRequest msg userContext))"
proof (intro conjI allI impI)
  show "upstreamCalls (chatHandler w reqBody) = []"
    if "getProp reqBody ''message'' = None"
    using tryBlock_no_body [OF that, of w] by (simp add: upstreamCalls_chatHandler)
  show "upstreamCalls (chatHandler w reqBody) = []"
    if "getProp reqBody ''message'' = Some msg \<and> (\<not> truthy msg \<or> typeofJS msg \<noteq> ''string'')"
    for msg
    using tryBlock_invalid [of reqBody msg w] that by (simp add: upstreamCalls_chatHandler)
  show "upstreamCalls (chatHandler w reqBody) = []"
    if h: "getProp reqBody ''message'' = Some msg \<and> truthy msg \<and> typeofJS msg = ''string''
        \<and> getProp reqBody ''userData'' = Some u
        \<and> buildUserContext w (if u = JUndefined then JObj [] else u) = None"
    for msg u
  proof -
    from h obtain m where "msg = JStr m" "m \<noteq> []"
      using valid_message_iff [of msg] by auto
    with h tryBlock_render_throws [of reqBody m u w] show ?thesis
      by (simp add: upstreamCalls_chatHandler)
  qed
  have one: "upstreamCalls (chatHandler w reqBody) = [chatRequest msg userContext]"
    if h: "getProp reqBody ''message'' = Some msg \<and> truthy msg \<and> typeofJS msg = ''string''
        \<and> getProp reqBody ''userData'' = Some u
        \<and> buildUserContext w (if u = JUndefined then JObj [] else u) = Some userContext"
    for msg u userContext
  proof -
    from h obtain m where "msg = JStr m" "m \<noteq> []"
      using valid_message_iff [of msg] by auto
    with h tryBlock_valid_calls [of reqBody m u w userContext] show ?thesis
      by (simp add: upstreamCalls_chatHandler)
  qed
  show "upstreamCalls (chatHandler w reqBody) = [chatRequest msg userContext]"
    if "getProp reqBody ''message'' = Some msg \<and> truthy msg \<and> typeofJS msg = ''string''
        \<and> getProp reqBody ''userData'' = Some u
        \<and> buildUserContext w (if u = JUndefined then JObj [] else u) = Some userContext"
    for msg u userContext
    using one [OF that] .
  show "serviceRequests attempts (chatHandler w reqBody) = attempts (chatRequest msg userContext)"
    if "getProp reqBody ''message'' = Some msg \<and> truthy msg \<and> typeofJS msg = ''string''
        \<and> getProp reqBody ''userData'' = Some u
        \<and> buildUserContext w (if u = JUndefined then JObj [] else u) = Some userContext"
    for msg u userContext
    using one [OF that] by (simp add: serviceRequests_def)
  show "length (upstreamCalls (chatHandler w reqBody)) \<le> 1"
    by (simp add: upstreamCalls_chatHandler tryBlock_def Let_def
        split: option.splits upstream_result.splits)
qed

theorem handler_calls_client_at_most_once_witness:
  "upstreamCalls (chatHandler (sampleWorld (Rejected (JObj [(''status'', JNum 429)]))) sampleBody) =
     [chatRequest (JStr ''Where are my keys?'') sampleContextText]
   \<and> serviceRequests singleAttemptClient
        (chatHandler (sampleWorld (Rejected (JObj [(''status'', JNum 429)]))) sampleBody) = 1
   \<and> upstreamCalls (chatHandler (sampleWorld (Resolved sampleAnswer)) sampleBody) =
     [chatRequest (JStr ''Where are my keys?'') sampleContextText]
   \<and> upstreamCalls (chatHandler (sampleWorld (Resolved sampleAnswer)) nullUserDataBody) = []
   \<and> upstreamCalls (chatHandler (sampleWorld (Resolved sampleAnswer))
        (JObj [(''message'', JNum 42)])) = []
   \<and> upstreamCalls (chatHandler (sampleWorld (Resolved sampleAnswer)) JUndefined) = []"
proof -
  have m: "getProp sampleBody ''message'' = Some (JStr ''Where are my keys?'')"
          "getProp sampleBody ''userData'' = Some sampleUserData"
    by (simp_all add: sampleBody_def)
  have c: "buildUserContext (sampleWorld r)
             (if sampleUserData = JUndefined then JObj [] else sampleUserData) =
           Some sampleContextText" for r
    using sample_context [of r] by (simp add: sampleUserData_def)
  have n: "getProp nullUserDataBody ''message'' = Some (JStr ''hi'')"
          "getProp nullUserDataBody ''userData'' = Some JNull"
          "buildUserContext (sampleWorld (Resolved sampleAnswer))
             (if JNull = JUndefined then JObj [] else JNull) = None"
    by (simp_all add: nullUserDataBody_def renderer_defs)
  from handler_calls_client_at_most_once
         [of "sampleWorld (Rejected (JObj [(''status'', JNum 429)]))" sampleBody
             singleAttemptClient]
       handler_calls_client_at_most_once
         [of "sampleWorld (Resolved sampleAnswer)" sampleBody singleAttemptClient]
       handler_calls_client_at_most_once
         [of "sampleWorld (Resolved sampleAnswer)" nullUserDataBody singleAttemptClient]
       handler_calls_client_at_most_once
         [of "sampleWorld (Resolved sampleAnswer)" "JObj [(''message'', JNum 42)]"
             singleAttemptClient]
       handler_calls_client_at_most_once
         [of "sampleWorld (Resolved sampleAnswer)" JUndefined singleAttemptClient]
       m c n
  show ?thesis
    by (simp add: singleAttemptClient_def)
qed

text \<open>
  The claim as the specification words it has zero calls for a validation failure and one
  call otherwise, and no more than one request to the model service. On a valid message
  with \<^verbatim>\<open>userData: null\<close> validation passes, \<^verbatim>\<open>buildUserContext\<close> throws on
  \<^verbatim>\<open>userData.location\<close>, and the handler replies 500 without any call. And with a client
  that sends a rejected request three times, the one call of the handler is three
  requests to the service.
\<close>

theorem valid_message_without_call_counterexample:
  "getProp nullUserDataBody ''message'' = Some (JStr ''hi'')
   \<and> truthy (JStr ''hi'') \<and> typeofJS (JStr ''hi'') = ''string''
   \<and> upstreamCalls (chatHandler (sampleWorld (Resolved sampleAnswer)) nullUserDataBody) = []
   \<and> reply (chatHandler (sampleWorld (Resolved sampleAnswer)) nullUserDataBody) =
       Some \<lparr> status = 500,
              body = JObj [(''error'', JStr ''Failed to get response''),
                           (''fallback'', JStr ''I'm having trouble understanding right now. Could you try asking again?'')] \<rparr>
   \<and> serviceRequests retryingClient
        (chatHandler (sampleWorld (Rejected (JObj [(''status'', JNum 429)]))) sampleBody) = 3"
proof (intro conjI)
  show "getProp nullUserDataBody ''message'' = Some (JStr ''hi'')"
    by (simp add: nullUserDataBody_def)
  show "truthy (JStr ''hi'')" and "typeofJS (JStr ''hi'') = ''string''"
    by simp_all
  have t: "tryBlock (sampleWorld (Resolved sampleAnswer)) nullUserDataBody =
             (Inl TypeError, [], [])"
    by (simp add: tryBlock_def nullUserDataBody_def renderer_defs)
  show "upstreamCalls (chatHandler (sampleWorld (Resolved sampleAnswer)) nullUserDataBody) = []"
    by (simp add: chatHandler_def t)
  show "reply (chatHandler (sampleWorld (Resolved sampleAnswer)) nullUserDataBody) =
       Some \<lparr> status = 500,
              body = JObj [(''error'', JStr ''Failed to get response''),
                           (''fallback'', JStr ''I'm having trouble understanding right now. Could you try asking again?'')] \<rparr>"
    by (simp add: chatHandler_def t catchBlock_def)
  have s: "tryBlock (sampleWorld (Rejected (JObj [(''status'', JNum 429)]))) sampleBody =
             (Inl (Reason (JObj [(''status'', JNum 429)])),
              [chatRequest (JStr ''Where are my keys?'') sampleContextText], [])"
    using sample_context [of "Rejected (JObj [(''status'', JNum 429)])"]
    by (simp add: tryBlock_def sampleBody_def sampleUserData_def sampleWorld_def)
  show "serviceRequests retryingClient
        (chatHandler (sampleWorld (Rejected (JObj [(''status'', JNum 429)]))) sampleBody) = 3"
    by (simp add: serviceRequests_def chatHandler_def s retryingClient_def)
qed

end
